theory Spec2Isabelle
  imports Complex_Main "HOL-Library.Sublist"
begin

section \<open>Values, errors and outcomes\<close>

text \<open>
  A rule file is parsed into a Go \<^verbatim>\<open>map[string]interface{}\<close>. The dynamic values an
  \<^verbatim>\<open>interface{}\<close> holds after parsing are modelled by \<open>val\<close>; \<open>VNil\<close> is the nil
  interface (an explicit empty value in the file).
\<close>

datatype val =
    VNil
  | VBool bool
  | VInt int
  | VStr string
  | VList "val list"
  | VMap "(string \<times> val) list"

type_synonym baseCheck = "string \<rightharpoonup> val"

text \<open>
  Indexing a Go map with an absent key yields the zero value, which for \<^verbatim>\<open>interface{}\<close>
  is nil: \<^verbatim>\<open>generic["k"] != nil\<close> is false both for an absent key and for a nil value.
\<close>

definition index :: "baseCheck \<Rightarrow> string \<Rightarrow> val" where
  "index generic k = (case generic k of None \<Rightarrow> VNil | Some v \<Rightarrow> v)"

definition delete :: "baseCheck \<Rightarrow> string \<Rightarrow> baseCheck" where
  "delete generic k = generic(k := None)"

text \<open>
  The errors of package \<^verbatim>\<open>core\<close>, by the constructor function that builds them:
  \<^verbatim>\<open>NewE100(context, err)\<close>, \<^verbatim>\<open>NewE201FromPosition(msg, path, line)\<close> and
  \<^verbatim>\<open>NewE201FromTarget(msg, key, path)\<close>. \<open>LibError\<close> is an error value of a library,
  kept by its message.
\<close>

datatype verror =
    E100 string string
  | E201FromPosition string string nat
  | E201FromTarget string string string
  | LibError string

text \<open>
  A Go function either returns or panics (a failed unchecked type assertion, an index out
  of range, \<^verbatim>\<open>regexp.MustCompile\<close> on a malformed pattern).
\<close>

datatype 'a result = Panics | Returns 'a

section \<open>Regular expressions\<close>

text \<open>
  The fragment of the regular-expression syntax that the fixed pattern of
  \<^verbatim>\<open>isValidLevel\<close> uses: literals, alternation, sequencing and the end-of-text anchor
  (\<^verbatim>\<open>$\<close> without the multi-line flag). \<open>rests r s\<close> lists what remains of \<open>s\<close> after each
  way of matching \<open>r\<close> at its start; \<open>MatchString\<close> is the unanchored search: some
  start position admits a match.
\<close>

datatype rx = Lit string | Alt rx rx | Seq rx rx | EndText

fun rests :: "rx \<Rightarrow> string \<Rightarrow> string list" where
  "rests (Lit l) s = (if take (length l) s = l then [drop (length l) s] else [])"
| "rests (Alt a b) s = rests a s @ rests b s"
| "rests (Seq a b) s = concat (map (rests b) (rests a s))"
| "rests EndText s = (if s = [] then [[]] else [])"

definition MatchString :: "rx \<Rightarrow> string \<Rightarrow> bool" where
  "MatchString r s = list_ex (\<lambda>i. rests r (drop i s) \<noteq> []) [0..<Suc (length s)]"

text \<open>
  The functions of the regular-expression and string libraries that the rule compiler
  applies to patterns written by users are parameters of the model: \<open>rxValid p\<close> says
  whether \<^verbatim>\<open>regexp.Compile(p)\<close> succeeds, \<open>FindStringSubmatch p s\<close> is the leftmost match
  of the pattern \<open>p\<close> in \<open>s\<close> with its groups (\<open>None\<close> when \<open>s\<close> has no match), and
  \<open>ToLower\<close> is \<^verbatim>\<open>strings.ToLower\<close>. A compiled expression is represented by the
  pattern it was compiled from.
\<close>

record lib =
  rxValid :: "string \<Rightarrow> bool"
  FindStringSubmatch :: "string \<Rightarrow> string \<Rightarrow> string list option"
  ToLower :: "string \<Rightarrow> string"

type_synonym regexp = string

definition Compile :: "lib \<Rightarrow> string \<Rightarrow> regexp option" where
  "Compile L p = (if rxValid L p then Some p else None)"

definition MustCompile :: "lib \<Rightarrow> string \<Rightarrow> regexp result" where
  "MustCompile L p = (case Compile L p of None \<Rightarrow> Panics | Some re \<Rightarrow> Returns re)"

text \<open>\<^verbatim>\<open>strings.Join\<close>.\<close>

fun Join :: "string list \<Rightarrow> string \<Rightarrow> string" where
  "Join [] sep = []"
| "Join [x] sep = x"
| "Join (x # y # ys) sep = x @ sep @ Join (y # ys) sep"

section \<open>Validation of the rule header\<close>

definition extensionPoints :: "string list" where
  "extensionPoints =
     [''capitalization'', ''conditional'', ''consistency'', ''existence'', ''occurrence'',
      ''repetition'', ''substitution'', ''readability'', ''spelling'', ''sequence'']"

text \<open>
  Modelled from the spec: \<^verbatim>\<open>core.StringInSlice\<close> is not among the sources; the spec's
  "\<^verbatim>\<open>extends\<close> must name a known kind" is read as membership in the slice.
\<close>

definition StringInSlice :: "string \<Rightarrow> string list \<Rightarrow> bool" where
  "StringInSlice a slice = (a \<in> set slice)"

text \<open>
  \<^verbatim>\<open>fmt.Sprintf("%v", xs)\<close> for a slice of strings: the elements between brackets.
  \<open>quoted s\<close> is \<open>s\<close> between single quotes, as the format strings write it.
\<close>

definition quoted :: "string \<Rightarrow> string" where
  "quoted s = CHR 0x27 # s @ [CHR 0x27]"

definition showSlice :: "string list \<Rightarrow> string" where
  "showSlice xs = ''['' @ Join xs '' '' @ '']''"

text \<open>
  \<^verbatim>\<open>validateDefinition\<close>. The comma-ok lookup distinguishes an absent key from a present
  one; \<^verbatim>\<open>point.(string)\<close> is an unchecked type assertion and panics when the value of
  \<^verbatim>\<open>extends\<close> is not a string.
\<close>

definition validateDefinition :: "baseCheck \<Rightarrow> string \<Rightarrow> string \<Rightarrow> verror option result" where
  "validateDefinition generic name path =
     (case generic ''extends'' of
        None \<Rightarrow>
          Returns (Some (E201FromPosition
            (quoted name @ '' is missing the required '' @ quoted ''extends'' @ '' key.'') path 1))
      | Some (VStr point) \<Rightarrow>
          if \<not> StringInSlice point extensionPoints then
            Returns (Some (E201FromTarget
              (quoted ''extends'' @ '' key must be one of '' @ showSlice extensionPoints @ ''.'')
              point path))
          else (case generic ''message'' of
             None \<Rightarrow>
               Returns (Some (E201FromPosition
                 (quoted name @ '' is missing the required '' @ quoted ''message'' @ '' key.'') path 1))
           | Some _ \<Rightarrow> Returns None)
      | Some _ \<Rightarrow> Panics)"

text \<open>
  \<^verbatim>\<open>isValidLevel\<close> is registered for the tag \<^verbatim>\<open>validate:"level"\<close> of the string field
  \<^verbatim>\<open>Definition.Level\<close>, so its argument is a string. Its pattern is
  \<^verbatim>\<open>(?:suggestion|warning|error)$\<close>.
\<close>

definition levelRx :: rx where
  "levelRx = Seq (Alt (Lit ''suggestion'') (Alt (Lit ''warning'') (Lit ''error''))) EndText"

definition isValidLevel :: "string \<Rightarrow> string \<Rightarrow> string option" where
  "isValidLevel v param =
     (if \<not> MatchString levelRx v
      then Some (''key '' @ quoted ''level'' @ '' must be '' @ quoted ''suggestion'' @ '', '' @
                 quoted ''warning'' @ '', or '' @ quoted ''error'')
      else None)"

section \<open>Rule definitions\<close>

text \<open>
  Modelled from the spec: \<^verbatim>\<open>core.Action\<close> is not among the sources; the spec gives it a
  name and a list of parameters.
\<close>

record Action =
  Name :: string
  Params :: "string list"

record Definition =
  Action :: Action
  Code :: bool
  Description :: string
  Extends :: string
  Level :: string
  Limit :: int
  Link :: string
  Message :: string
  Name :: string
  Scope :: string

record NLPToken =
  Pattern :: string
  Negate :: bool
  Tag :: string
  Skip :: int
  re :: "regexp option"
  optional :: bool

definition NLPToken_zero :: NLPToken where
  "NLPToken_zero =
     \<lparr>Pattern = [], Negate = False, Tag = [], Skip = 0, re = None, optional = False\<rparr>"

record Existence = Definition +
  Append :: bool
  Ignorecase :: bool
  Nonword :: bool
  Raw :: "string list"
  Tokens :: "string list"

definition Existence_zero :: Existence where
  "Existence_zero =
     \<lparr>Action = \<lparr>Action.Name = [], Params = []\<rparr>, Code = False, Description = [], Extends = [],
      Level = [], Limit = 0, Link = [], Message = [], Name = [], Scope = [],
      Append = False, Ignorecase = False, Nonword = False, Raw = [], Tokens = []\<rparr>"

record Substitution = Definition +
  Ignorecase :: bool
  Nonword :: bool
  Swap :: "string \<rightharpoonup> string"
  POS :: string

definition Substitution_zero :: Substitution where
  "Substitution_zero =
     \<lparr>Action = \<lparr>Action.Name = [], Params = []\<rparr>, Code = False, Description = [], Extends = [],
      Level = [], Limit = 0, Link = [], Message = [], Name = [], Scope = [],
      Ignorecase = False, Nonword = False, Swap = Map.empty, POS = []\<rparr>"

record Occurrence = Definition +
  Ignorecase :: bool
  Max :: int
  Min :: int
  Token :: string

definition Occurrence_zero :: Occurrence where
  "Occurrence_zero =
     \<lparr>Action = \<lparr>Action.Name = [], Params = []\<rparr>, Code = False, Description = [], Extends = [],
      Level = [], Limit = 0, Link = [], Message = [], Name = [], Scope = [],
      Ignorecase = False, Max = 0, Min = 0, Token = []\<rparr>"

record Repetition = Definition +
  Max :: int
  Ignorecase :: bool
  Alpha :: bool
  Tokens :: "string list"

definition Repetition_zero :: Repetition where
  "Repetition_zero =
     \<lparr>Action = \<lparr>Action.Name = [], Params = []\<rparr>, Code = False, Description = [], Extends = [],
      Level = [], Limit = 0, Link = [], Message = [], Name = [], Scope = [],
      Max = 0, Ignorecase = False, Alpha = False, Tokens = []\<rparr>"

record Consistency = Definition +
  Nonword :: bool
  Ignorecase :: bool
  Either :: "string \<rightharpoonup> string"

definition Consistency_zero :: Consistency where
  "Consistency_zero =
     \<lparr>Action = \<lparr>Action.Name = [], Params = []\<rparr>, Code = False, Description = [], Extends = [],
      Level = [], Limit = 0, Link = [], Message = [], Name = [], Scope = [],
      Nonword = False, Ignorecase = False, Either = Map.empty\<rparr>"

record Conditional = Definition +
  Ignorecase :: bool
  First :: string
  Second :: string
  Exceptions :: "string list"
  exceptRe :: "regexp option"

definition Conditional_zero :: Conditional where
  "Conditional_zero =
     \<lparr>Action = \<lparr>Action.Name = [], Params = []\<rparr>, Code = False, Description = [], Extends = [],
      Level = [], Limit = 0, Link = [], Message = [], Name = [], Scope = [],
      Ignorecase = False, First = [], Second = [], Exceptions = [], exceptRe = None\<rparr>"

record Capitalization = Definition +
  Match :: string
  Check :: "(string \<Rightarrow> string list \<Rightarrow> regexp option \<Rightarrow> bool) option"
  Style :: string
  Exceptions :: "string list"
  Indicators :: "string list"
  exceptRe :: "regexp option"

definition Capitalization_zero :: Capitalization where
  "Capitalization_zero =
     \<lparr>Action = \<lparr>Action.Name = [], Params = []\<rparr>, Code = False, Description = [], Extends = [],
      Level = [], Limit = 0, Link = [], Message = [], Name = [], Scope = [],
      Match = [], Check = None, Style = [], Exceptions = [], Indicators = [],
      exceptRe = None\<rparr>"

record Readability = Definition +
  Metrics :: "string list"
  Grade :: real

definition Readability_zero :: Readability where
  "Readability_zero =
     \<lparr>Action = \<lparr>Action.Name = [], Params = []\<rparr>, Code = False, Description = [], Extends = [],
      Level = [], Limit = 0, Link = [], Message = [], Name = [], Scope = [],
      Metrics = [], Grade = 0\<rparr>"

record Spelling = Definition +
  Aff :: string
  Custom :: bool
  Dic :: string
  Filters :: "regexp list"
  Ignore :: "string list"
  Exceptions :: "string list"
  Threshold :: int
  exceptRe :: "regexp option"

definition Spelling_zero :: Spelling where
  "Spelling_zero =
     \<lparr>Action = \<lparr>Action.Name = [], Params = []\<rparr>, Code = False, Description = [], Extends = [],
      Level = [], Limit = 0, Link = [], Message = [], Name = [], Scope = [],
      Aff = [], Custom = False, Dic = [], Filters = [], Ignore = [], Exceptions = [],
      Threshold = 0, exceptRe = None\<rparr>"

record Sequence = Definition +
  Ignorecase :: bool
  Tokens :: "NLPToken list"
  needsTagging :: bool
  history :: "int list"

definition Sequence_zero :: Sequence where
  "Sequence_zero =
     \<lparr>Action = \<lparr>Action.Name = [], Params = []\<rparr>, Code = False, Description = [], Extends = [],
      Level = [], Limit = 0, Link = [], Message = [], Name = [], Scope = [],
      Ignorecase = False, Tokens = [], needsTagging = False, history = []\<rparr>"

section \<open>The manager and the libraries the builders call\<close>

text \<open>
  \<^verbatim>\<open>Manager\<close>, \<^verbatim>\<open>core.Config\<close> and \<^verbatim>\<open>core.CLIFlags\<close> are declared outside the sources at
  hand; the records hold the fields that the sources read. The builders
  read \<^verbatim>\<open>mgr.Config.AcceptedTokens\<close>, a Go map used as a set, by ranging over it: the
  field holds its keys in the order this run of \<^verbatim>\<open>range\<close> visits them, each once. The rest
  of the manager is the state \<open>Checks\<close> that only the \<^verbatim>\<open>add...Check\<close> methods touch; those
  methods are parameters of the builders.
\<close>

record CLIFlags =
  Path :: string
  Output :: string
  Glob :: string
  NoExit :: bool

record Config =
  AcceptedTokens :: "string list"
  Flags :: CLIFlags

record 'c Manager =
  Config :: Config
  Checks :: 'c

text \<open>
  \<^verbatim>\<open>mapstructure.Decode(input, &def)\<close> is a library function and a parameter of the model:
  from the input and the current value of the struct it yields an error message or the
  new value of the struct. It writes through reflection, which cannot set unexported
  fields: each call site below keeps them as they were.
\<close>

type_synonym ('i, 'd) decoder = "'i \<Rightarrow> 'd \<Rightarrow> string + 'd"

definition decodeConditional ::
  "(baseCheck, Conditional) decoder \<Rightarrow> baseCheck \<Rightarrow> Conditional \<Rightarrow> string + Conditional" where
  "decodeConditional dec generic def =
     (case dec generic def of
        Inl err \<Rightarrow> Inl err
      | Inr d \<Rightarrow> Inr (d\<lparr>Conditional.exceptRe := Conditional.exceptRe def\<rparr>))"

definition decodeCapitalization ::
  "(baseCheck, Capitalization) decoder \<Rightarrow> baseCheck \<Rightarrow> Capitalization \<Rightarrow>
     string + Capitalization" where
  "decodeCapitalization dec generic def =
     (case dec generic def of
        Inl err \<Rightarrow> Inl err
      | Inr d \<Rightarrow> Inr (d\<lparr>Capitalization.exceptRe := Capitalization.exceptRe def\<rparr>))"

definition decodeSpelling ::
  "(baseCheck, Spelling) decoder \<Rightarrow> baseCheck \<Rightarrow> Spelling \<Rightarrow> string + Spelling" where
  "decodeSpelling dec generic def =
     (case dec generic def of
        Inl err \<Rightarrow> Inl err
      | Inr d \<Rightarrow> Inr (d\<lparr>Spelling.exceptRe := Spelling.exceptRe def\<rparr>))"

definition decodeSequence ::
  "(baseCheck, Sequence) decoder \<Rightarrow> baseCheck \<Rightarrow> Sequence \<Rightarrow> string + Sequence" where
  "decodeSequence dec generic def =
     (case dec generic def of
        Inl err \<Rightarrow> Inl err
      | Inr d \<Rightarrow> Inr (d\<lparr>needsTagging := needsTagging def, history := history def\<rparr>))"

text \<open>
  The sequence builder discards the error of decoding a token and goes on with the
  struct as the decoder left it, so the token decoder yields the struct in either case.
\<close>

definition decodeToken :: "(val \<Rightarrow> NLPToken \<Rightarrow> NLPToken) \<Rightarrow> val \<Rightarrow> NLPToken \<Rightarrow> NLPToken" where
  "decodeToken dec token tok = (dec token tok)\<lparr>re := re tok, optional := optional tok\<rparr>"

text \<open>
  \<^verbatim>\<open>validator.Validate(def)\<close> runs the functions registered for the struct tags. The only
  tag is \<^verbatim>\<open>validate:"level"\<close> on \<^verbatim>\<open>Definition.Level\<close>, bound to \<^verbatim>\<open>isValidLevel\<close> by
  \<^verbatim>\<open>init\<close>; the error names the field before the message, the shape that
  \<^verbatim>\<open>readValueError\<close> parses.
\<close>

definition Validate :: "'a Definition_scheme \<Rightarrow> string option" where
  "Validate def =
     (case isValidLevel (Level def) [] of
        None \<Rightarrow> None
      | Some msg \<Rightarrow> Some (''Definition.Level: '' @ msg))"

definition readStructureError :: "lib \<Rightarrow> string \<Rightarrow> string \<Rightarrow> string \<Rightarrow> verror result" where
  "readStructureError L err name path =
     (case FindStringSubmatch L (CHR 0x5C # ''* '' @ quoted ''(.+)'' @ '' (.+)'') err of
        None \<Rightarrow> Returns (LibError err)
      | Some groups \<Rightarrow>
          if 2 < length groups then
            Returns (E201FromTarget
              (''Failed to parse '' @ quoted name @ '': '' @ groups ! 2)
              (ToLower L (groups ! 1)) path)
          else Panics)"

definition readValueError :: "lib \<Rightarrow> string \<Rightarrow> string \<Rightarrow> string \<Rightarrow> verror result" where
  "readValueError L err name path =
     (case FindStringSubmatch L
             (''Definition'' @ [CHR 0x5C] @ ''.('' @ [CHR 0x5C] @ ''w+): (.+)'') err of
        None \<Rightarrow> Returns (LibError err)
      | Some groups \<Rightarrow>
          if 2 < length groups then
            Returns (E201FromTarget
              (''Failed to parse '' @ quoted name @ '': '' @ groups ! 2)
              (ToLower L (groups ! 1)) path)
          else Panics)"

section \<open>The builders of \<^verbatim>\<open>checkBuilders\<close>\<close>

text \<open>
  A builder returns its error value (\<open>None\<close> is nil) and the manager as the \<^verbatim>\<open>add...Check\<close>
  method left it, or panics. The \<^verbatim>\<open>delete\<close> calls change the caller's map as well; no
  property below reads the map after the builder, so the result does not carry it.
\<close>

type_synonym 'c built = "(verror option \<times> 'c Manager) result"

definition failWith :: "verror result \<Rightarrow> 'c Manager \<Rightarrow> 'c built" where
  "failWith r mgr = (case r of Panics \<Rightarrow> Panics | Returns e \<Rightarrow> Returns (Some e, mgr))"

definition existenceBuilder ::
  "lib \<Rightarrow> (baseCheck, Existence) decoder \<Rightarrow>
   (string \<Rightarrow> string \<Rightarrow> Existence \<Rightarrow> 'c Manager \<Rightarrow> verror option \<times> 'c Manager) \<Rightarrow>
   string \<Rightarrow> string \<Rightarrow> baseCheck \<Rightarrow> 'c Manager \<Rightarrow> 'c built" where
  "existenceBuilder L dec addExistenceCheck name path generic mgr =
     (case dec generic Existence_zero of
        Inl err \<Rightarrow> failWith (readStructureError L err name path) mgr
      | Inr def \<Rightarrow>
          (case Validate def of
             Some err \<Rightarrow> failWith (readValueError L err name path) mgr
           | None \<Rightarrow> Returns (addExistenceCheck name path def mgr)))"

definition substitutionBuilder ::
  "lib \<Rightarrow> (baseCheck, Substitution) decoder \<Rightarrow>
   (string \<Rightarrow> string \<Rightarrow> Substitution \<Rightarrow> 'c Manager \<Rightarrow> verror option \<times> 'c Manager) \<Rightarrow>
   string \<Rightarrow> string \<Rightarrow> baseCheck \<Rightarrow> 'c Manager \<Rightarrow> 'c built" where
  "substitutionBuilder L dec addSubstitutionCheck name path generic mgr =
     (case dec generic Substitution_zero of
        Inl err \<Rightarrow> failWith (readStructureError L err name path) mgr
      | Inr def \<Rightarrow>
          (case Validate def of
             Some err \<Rightarrow> failWith (readValueError L err name path) mgr
           | None \<Rightarrow> Returns (addSubstitutionCheck name path def mgr)))"

definition occurrenceBuilder ::
  "(baseCheck, Occurrence) decoder \<Rightarrow> (string \<Rightarrow> Occurrence \<Rightarrow> 'c Manager \<Rightarrow> 'c Manager) \<Rightarrow>
   string \<Rightarrow> string \<Rightarrow> baseCheck \<Rightarrow> 'c Manager \<Rightarrow> 'c built" where
  "occurrenceBuilder dec addOccurrenceCheck name path generic mgr =
     (case dec generic Occurrence_zero of
        Inr def \<Rightarrow> Returns (None, addOccurrenceCheck name def mgr)
      | Inl err \<Rightarrow> Returns (None, mgr))"

definition repetitionBuilder ::
  "(baseCheck, Repetition) decoder \<Rightarrow> (string \<Rightarrow> Repetition \<Rightarrow> 'c Manager \<Rightarrow> 'c Manager) \<Rightarrow>
   string \<Rightarrow> string \<Rightarrow> baseCheck \<Rightarrow> 'c Manager \<Rightarrow> 'c built" where
  "repetitionBuilder dec addRepetitionCheck name path generic mgr =
     (case dec generic Repetition_zero of
        Inr def \<Rightarrow> Returns (None, addRepetitionCheck name def mgr)
      | Inl err \<Rightarrow> Returns (None, mgr))"

definition consistencyBuilder ::
  "(baseCheck, Consistency) decoder \<Rightarrow> (string \<Rightarrow> Consistency \<Rightarrow> 'c Manager \<Rightarrow> 'c Manager) \<Rightarrow>
   string \<Rightarrow> string \<Rightarrow> baseCheck \<Rightarrow> 'c Manager \<Rightarrow> 'c built" where
  "consistencyBuilder dec addConsistencyCheck name path generic mgr =
     (case dec generic Consistency_zero of
        Inr def \<Rightarrow> Returns (None, addConsistencyCheck name def mgr)
      | Inl err \<Rightarrow> Returns (None, mgr))"

definition readabilityBuilder ::
  "(baseCheck, Readability) decoder \<Rightarrow> (string \<Rightarrow> Readability \<Rightarrow> 'c Manager \<Rightarrow> 'c Manager) \<Rightarrow>
   string \<Rightarrow> string \<Rightarrow> baseCheck \<Rightarrow> 'c Manager \<Rightarrow> 'c built" where
  "readabilityBuilder dec addReadabilityCheck name path generic mgr =
     (case dec generic Readability_zero of
        Inr def \<Rightarrow> Returns (None, addReadabilityCheck name def mgr)
      | Inl err \<Rightarrow> Returns (None, mgr))"

text \<open>
  The loop \<^verbatim>\<open>for term := range mgr.Config.AcceptedTokens\<close> of the conditional and the
  capitalization builder appends each term to the exceptions.
\<close>

fun appendTerms :: "string list \<Rightarrow> string list \<Rightarrow> string list" where
  "appendTerms exceptions [] = exceptions"
| "appendTerms exceptions (t # ts) = appendTerms (exceptions @ [t]) ts"

definition conditionalBuilder ::
  "lib \<Rightarrow> (baseCheck, Conditional) decoder \<Rightarrow>
   (string \<Rightarrow> Conditional \<Rightarrow> 'c Manager \<Rightarrow> 'c Manager) \<Rightarrow>
   string \<Rightarrow> string \<Rightarrow> baseCheck \<Rightarrow> 'c Manager \<Rightarrow> 'c built" where
  "conditionalBuilder L dec addConditionalCheck name path generic mgr =
     (case decodeConditional dec generic Conditional_zero of
        Inr def \<Rightarrow>
          (let exceptions =
                 appendTerms (Conditional.Exceptions def) (AcceptedTokens (Config mgr))
           in case MustCompile L (Join exceptions ''|'') of
                Panics \<Rightarrow> Panics
              | Returns rx \<Rightarrow>
                  Returns (None, addConditionalCheck name
                    (def\<lparr>Conditional.Exceptions := exceptions,
                         Conditional.exceptRe := Some rx\<rparr>) mgr))
      | Inl err \<Rightarrow> Returns (None, mgr))"

definition capitalizationBuilder ::
  "lib \<Rightarrow> (baseCheck, Capitalization) decoder \<Rightarrow>
   (string \<Rightarrow> Capitalization \<Rightarrow> 'c Manager \<Rightarrow> 'c Manager) \<Rightarrow>
   string \<Rightarrow> string \<Rightarrow> baseCheck \<Rightarrow> 'c Manager \<Rightarrow> 'c built" where
  "capitalizationBuilder L dec addCapitalizationCheck name path generic mgr =
     (case decodeCapitalization dec generic Capitalization_zero of
        Inr def \<Rightarrow>
          (let exceptions =
                 appendTerms (Capitalization.Exceptions def) (AcceptedTokens (Config mgr))
           in case MustCompile L (Join exceptions ''|'') of
                Panics \<Rightarrow> Panics
              | Returns rx \<Rightarrow>
                  Returns (None, addCapitalizationCheck name
                    (def\<lparr>Capitalization.Exceptions := exceptions,
                         Capitalization.exceptRe := Some rx\<rparr>) mgr))
      | Inl err \<Rightarrow> Returns (None, mgr))"

subsection \<open>Spelling\<close>

text \<open>
  \<^verbatim>\<open>ignoreCase\<close> is a constant of the package declared outside the sources at hand; it is
  a parameter of the spelling builder.

  The three preparation steps work on the struct before it is decoded. The loop over
  \<^verbatim>\<open>generic["filters"].([]interface{})\<close> asserts each entry to be a string and appends
  the compiled pattern when \<^verbatim>\<open>regexp.Compile\<close> succeeds.
\<close>

fun compileFilters :: "lib \<Rightarrow> val list \<Rightarrow> regexp list \<Rightarrow> regexp list result" where
  "compileFilters L [] filters = Returns filters"
| "compileFilters L (VStr flt # rest) filters =
     (case Compile L flt of
        Some pat \<Rightarrow> compileFilters L rest (filters @ [pat])
      | None \<Rightarrow> compileFilters L rest filters)"
| "compileFilters L (_ # rest) filters = Panics"

definition spellingFilters :: "lib \<Rightarrow> baseCheck \<Rightarrow> Spelling \<Rightarrow> (baseCheck \<times> Spelling) result" where
  "spellingFilters L generic def =
     (if index generic ''filters'' \<noteq> VNil then
        (case index generic ''filters'' of
           VList entries \<Rightarrow>
             (case compileFilters L entries (Filters def) of
                Panics \<Rightarrow> Panics
              | Returns filters \<Rightarrow>
                  Returns (delete generic ''filters'', def\<lparr>Filters := filters\<rparr>))
         | _ \<Rightarrow> Panics)
      else Returns (generic, def))"

fun appendIgnore :: "val list \<Rightarrow> string list \<Rightarrow> string list result" where
  "appendIgnore [] ignored = Returns ignored"
| "appendIgnore (VStr ignore # rest) ignored = appendIgnore rest (ignored @ [ignore])"
| "appendIgnore (_ # rest) ignored = Panics"

definition spellingIgnore :: "baseCheck \<Rightarrow> Spelling \<Rightarrow> (baseCheck \<times> Spelling) result" where
  "spellingIgnore generic def =
     (if index generic ''ignore'' \<noteq> VNil then
        (case index generic ''ignore'' of
           VStr ignore \<Rightarrow>
             Returns (delete generic ''ignore'', def\<lparr>Ignore := Ignore def @ [ignore]\<rparr>)
         | VList entries \<Rightarrow>
             (case appendIgnore entries (Ignore def) of
                Panics \<Rightarrow> Panics
              | Returns ignored \<Rightarrow>
                  Returns (delete generic ''ignore'', def\<lparr>Ignore := ignored\<rparr>))
         | _ \<Rightarrow> Panics)
      else Returns (generic, def))"

text \<open>
  The loop over the accepted tokens compiles the exception pattern anew in every
  iteration, from the exceptions gathered so far.
\<close>

fun spellingAccepted :: "lib \<Rightarrow> string \<Rightarrow> string list \<Rightarrow> Spelling \<Rightarrow> Spelling result" where
  "spellingAccepted L ignoreCase [] def = Returns def"
| "spellingAccepted L ignoreCase (t # ts) def =
     (let exceptions = Spelling.Exceptions def @ [t]
      in case MustCompile L (ignoreCase @ Join exceptions ''|'') of
           Panics \<Rightarrow> Panics
         | Returns rx \<Rightarrow>
             spellingAccepted L ignoreCase ts
               (def\<lparr>Spelling.Exceptions := exceptions, Spelling.exceptRe := Some rx\<rparr>))"

definition spellingBuilder ::
  "lib \<Rightarrow> string \<Rightarrow> (baseCheck, Spelling) decoder \<Rightarrow>
   (string \<Rightarrow> Spelling \<Rightarrow> 'c Manager \<Rightarrow> 'c Manager) \<Rightarrow>
   string \<Rightarrow> string \<Rightarrow> baseCheck \<Rightarrow> 'c Manager \<Rightarrow> 'c built" where
  "spellingBuilder L ignoreCase dec addSpellingCheck name path generic mgr =
     (case spellingFilters L generic Spelling_zero of
        Panics \<Rightarrow> Panics
      | Returns (generic1, def1) \<Rightarrow>
          (case spellingIgnore generic1 def1 of
             Panics \<Rightarrow> Panics
           | Returns (generic2, def2) \<Rightarrow>
               (case spellingAccepted L ignoreCase (AcceptedTokens (Config mgr)) def2 of
                  Panics \<Rightarrow> Panics
                | Returns def3 \<Rightarrow>
                    (case decodeSpelling dec generic2 def3 of
                       Inr def \<Rightarrow> Returns (None, addSpellingCheck name def mgr)
                     | Inl err \<Rightarrow> Returns (None, mgr)))))"

subsection \<open>Sequence\<close>

text \<open>
  The inner loop \<^verbatim>\<open>for i := tok.Skip; i > 0; i--\<close> appends the token, by now marked
  optional, once per round.
\<close>

function skipLoop :: "int \<Rightarrow> NLPToken \<Rightarrow> NLPToken list \<Rightarrow> NLPToken list" where
  "skipLoop i tok tokens = (if 0 < i then skipLoop (i - 1) tok (tokens @ [tok]) else tokens)"
  by pat_completeness auto
termination
  by (relation "measure (\<lambda>(i, tok, tokens). nat i)") auto

declare skipLoop.simps [simp del]

fun sequenceTokens ::
  "(val \<Rightarrow> NLPToken \<Rightarrow> NLPToken) \<Rightarrow> val list \<Rightarrow> NLPToken list \<Rightarrow> NLPToken list" where
  "sequenceTokens decTok [] tokens = tokens"
| "sequenceTokens decTok (token # rest) tokens =
     (let tok = decodeToken decTok token NLPToken_zero;
          tokens1 = tokens @ [tok];
          tok1 = tok\<lparr>optional := True\<rparr>
      in sequenceTokens decTok rest (skipLoop (Skip tok1) tok1 tokens1))"

definition sequenceBuilder ::
  "(val \<Rightarrow> NLPToken \<Rightarrow> NLPToken) \<Rightarrow> (baseCheck, Sequence) decoder \<Rightarrow>
   (string \<Rightarrow> Sequence \<Rightarrow> 'c Manager \<Rightarrow> 'c Manager) \<Rightarrow>
   string \<Rightarrow> string \<Rightarrow> baseCheck \<Rightarrow> 'c Manager \<Rightarrow> 'c built" where
  "sequenceBuilder decTok dec addSequenceCheck name path generic mgr =
     (case index generic ''tokens'' of
        VList entries \<Rightarrow>
          (let def = Sequence_zero\<lparr>Sequence.Tokens :=
                       sequenceTokens decTok entries (Sequence.Tokens Sequence_zero)\<rparr>
           in case decodeSequence dec (delete generic ''tokens'') def of
                Inr d \<Rightarrow> Returns (None, addSequenceCheck name d mgr)
              | Inl err \<Rightarrow> Returns (None, mgr))
      | _ \<Rightarrow> Panics)"

text \<open>
  In the words of the specification, an entry with \<^verbatim>\<open>skip: k\<close> stands for itself, not
  optional, followed by \<open>k\<close> copies of it marked optional.
\<close>

definition skipExpansion :: "NLPToken \<Rightarrow> NLPToken list" where
  "skipExpansion tok =
     tok\<lparr>optional := False\<rparr> # replicate (nat (Skip tok)) (tok\<lparr>optional := True\<rparr>)"

section \<open>The command line\<close>

text \<open>
  What the program asks of the operating system: \<^verbatim>\<open>core.FileExists\<close>, \<^verbatim>\<open>core.IsDir\<close>,
  \<^verbatim>\<open>os.Stdin.Stat()\<close> (\<open>None\<close> is an error; otherwise whether the mode has the
  \<^verbatim>\<open>ModeCharDevice\<close> bit) and \<^verbatim>\<open>ioutil.ReadAll(os.Stdin)\<close> (\<open>Inl\<close> is the error).
\<close>

record system =
  FileExists :: "string \<Rightarrow> bool"
  IsDir :: "string \<Rightarrow> bool"
  StdinStat :: "bool option"
  StdinReadAll :: "string + string"

definition validateFlags :: "system \<Rightarrow> Config \<Rightarrow> verror option" where
  "validateFlags S cfg =
     (if Path (Flags cfg) \<noteq> [] \<and> \<not> FileExists S (Path (Flags cfg)) then
        Some (E100 ''--config''
          (''path '' @ quoted (Path (Flags cfg)) @ '' does not exist''))
      else None)"

definition stat :: "system \<Rightarrow> bool" where
  "stat S =
     (case StdinStat S of
        None \<Rightarrow> False
      | Some charDevice \<Rightarrow> if charDevice then False else True)"

definition looksLikeStdin :: "system \<Rightarrow> string \<Rightarrow> bool" where
  "looksLikeStdin S s = (\<not> (FileExists S s \<or> IsDir S s) \<and> s \<noteq> [])"

text \<open>
  The two methods of \<^verbatim>\<open>lint.Linter\<close> that \<^verbatim>\<open>doLint\<close> calls are fields of the linter; a
  linted file is a value of the type \<open>'f\<close>. To tell whether anything was linted,
  \<^verbatim>\<open>doLint\<close> also yields the calls it made to the linter.
\<close>

record 'f Linter =
  LintString :: "string \<Rightarrow> 'f list \<times> verror option"
  Lint :: "string list \<Rightarrow> string \<Rightarrow> 'f list \<times> verror option"

datatype call = CallLintString string | CallLint "string list" string

text \<open>The loop of case 2, which returns from \<^verbatim>\<open>doLint\<close> at the first argument that does not exist.\<close>

fun collectInput :: "system \<Rightarrow> string list \<Rightarrow> string list \<Rightarrow> verror + string list" where
  "collectInput S [] input = Inr input"
| "collectInput S (file # rest) input =
     (if looksLikeStdin S file then
        Inl (E100 ''doLint'' (''argument '' @ quoted file @ '' does not exist''))
      else collectInput S rest (input @ [file]))"

text \<open>
  In case 3 the declaration \<^verbatim>\<open>stdin, err := ioutil.ReadAll(os.Stdin)\<close> opens a new \<^verbatim>\<open>err\<close>
  in the block, and \<^verbatim>\<open>linted, err = l.LintString(...)\<close> assigns that one: the final
  \<^verbatim>\<open>return linted, err\<close> reads the outer \<^verbatim>\<open>err\<close>, which is still nil.
\<close>

definition doLint ::
  "system \<Rightarrow> string list \<Rightarrow> 'f Linter \<Rightarrow> string \<Rightarrow> ('f list \<times> verror option) \<times> call list" where
  "doLint S args l glob =
     (if 0 < length args then
        if length args = 1 \<and> looksLikeStdin S (args ! 0) then
          (LintString l (args ! 0), [CallLintString (args ! 0)])
        else
          (case collectInput S args [] of
             Inl err \<Rightarrow> (([], Some err), [])
           | Inr input \<Rightarrow> (Lint l input glob, [CallLint input glob]))
      else
        (case StdinReadAll S of
           Inl err \<Rightarrow> (([], Some (E100 ''doLint'' err)), [])
         | Inr stdin \<Rightarrow> ((fst (LintString l stdin), None), [CallLintString stdin])))"

text \<open>
  What \<^verbatim>\<open>main\<close> calls outside the sources at hand: the parsed flags and arguments,
  \<^verbatim>\<open>core.NewConfig\<close>, the list \<^verbatim>\<open>commands\<close> and \<^verbatim>\<open>doCommand\<close>, \<^verbatim>\<open>printIntro\<close> (\<open>Some c\<close>
  when it ends the process with code \<open>c\<close>, \<open>None\<close> when it returns), \<^verbatim>\<open>core.From\<close>
  (which fills the configuration it is given), \<^verbatim>\<open>lint.NewLinter\<close> and \<^verbatim>\<open>PrintAlerts\<close>.
\<close>

record 'f program =
  system :: system
  flags :: CLIFlags
  Args :: "string list"
  NewConfig :: "CLIFlags \<Rightarrow> Config \<times> verror option"
  commands :: "string list"
  doCommand :: "string \<Rightarrow> verror option"
  printIntro :: "nat option"
  From :: "string \<Rightarrow> Config \<Rightarrow> Config \<times> verror option"
  NewLinter :: "Config \<Rightarrow> 'f Linter \<times> verror option"
  PrintAlerts :: "'f list \<Rightarrow> Config \<Rightarrow> bool \<times> verror option"

text \<open>
  A run of the process ends with \<^verbatim>\<open>os.Exit\<close>: its exit code, the errors that
  \<^verbatim>\<open>ShowError\<close> wrote to the standard error stream, in order, and the calls made to the
  linter.
\<close>

record run =
  exitCode :: nat
  stderr :: "verror list"
  calls :: "call list"

definition handleError :: "verror \<Rightarrow> verror list \<Rightarrow> call list \<Rightarrow> run" where
  "handleError err shown cs = \<lparr>exitCode = 2, stderr = shown @ [err], calls = cs\<rparr>"

text \<open>The statements of \<^verbatim>\<open>main\<close> from \<^verbatim>\<open>lint.NewLinter\<close> on.\<close>

definition lintAndReport :: "'f program \<Rightarrow> Config \<Rightarrow> verror list \<Rightarrow> run" where
  "lintAndReport P config shown =
     (case NewLinter P config of
        (linter, Some err) \<Rightarrow> handleError err shown []
      | (linter, None) \<Rightarrow>
          (case doLint (system P) (Args P) linter (Glob (flags P)) of
             ((linted, Some err), cs) \<Rightarrow> handleError err shown cs
           | ((linted, None), cs) \<Rightarrow>
               (case PrintAlerts P linted config of
                  (hasErrors, Some err) \<Rightarrow> handleError err shown cs
                | (hasErrors, None) \<Rightarrow>
                    if hasErrors \<and> \<not> NoExit (flags P)
                    then \<lparr>exitCode = 1, stderr = shown, calls = cs\<rparr>
                    else \<lparr>exitCode = 0, stderr = shown, calls = cs\<rparr>)))"

definition main :: "'f program \<Rightarrow> run" where
  "main P =
     (case NewConfig P (flags P) of
        (config, err) \<Rightarrow>
          (let shown = (case err of None \<Rightarrow> [] | Some e \<Rightarrow> [e]);
               args = Args P
           in if length args = 0 \<and> \<not> stat (system P) then
                (case printIntro P of
                   Some code \<Rightarrow> \<lparr>exitCode = code, stderr = shown, calls = []\<rparr>
                 | None \<Rightarrow> lintAndReport P config shown)
              else if length args = 1 \<and> StringInSlice (args ! 0) (commands P) then
                (case doCommand P (args ! 0) of
                   Some e \<Rightarrow> \<lparr>exitCode = 2, stderr = shown, calls = []\<rparr>
                 | None \<Rightarrow> \<lparr>exitCode = 1, stderr = shown, calls = []\<rparr>)
              else
                (case validateFlags (system P) config of
                   Some e \<Rightarrow> handleError e shown []
                 | None \<Rightarrow>
                     (case From P ''ini'' config of
                        (config1, Some e) \<Rightarrow> handleError e shown []
                      | (config1, None) \<Rightarrow> lintAndReport P config1 shown))))"

section \<open>Sample inputs\<close>

text \<open>
  Concrete stand-ins for the parameters, on which the builders and the command line are
  run below. The sample decoder fails, in the manner of a type mismatch, when the key \<open>k\<close>
  holds anything but an integer, and otherwise leaves the struct as it is; the sample
  library takes a pattern for well formed when its parentheses are balanced in number;
  the sample manager records, for each check added, its name, its exceptions and the
  pattern of its exception expression.
\<close>

definition sampleDecoder :: "string \<Rightarrow> (baseCheck, 'd) decoder" where
  "sampleDecoder k generic def =
     (case index generic k of
        VNil \<Rightarrow> Inr def
      | VInt n \<Rightarrow> Inr def
      | _ \<Rightarrow> Inl (''* '' @ quoted k @ '' expected type '' @ quoted ''int''))"

type_synonym sampleChecks = "(string \<times> string list \<times> regexp option) list"

definition sampleAdd :: "string \<Rightarrow> 'd \<Rightarrow> sampleChecks Manager \<Rightarrow> sampleChecks Manager" where
  "sampleAdd name def mgr = mgr\<lparr>Checks := Checks mgr @ [(name, [], None)]\<rparr>"

definition sampleAddConditional ::
  "string \<Rightarrow> Conditional \<Rightarrow> sampleChecks Manager \<Rightarrow> sampleChecks Manager" where
  "sampleAddConditional name def mgr =
     mgr\<lparr>Checks := Checks mgr @ [(name, Conditional.Exceptions def, Conditional.exceptRe def)]\<rparr>"

definition sampleAddCapitalization ::
  "string \<Rightarrow> Capitalization \<Rightarrow> sampleChecks Manager \<Rightarrow> sampleChecks Manager" where
  "sampleAddCapitalization name def mgr =
     mgr\<lparr>Checks := Checks mgr @
       [(name, Capitalization.Exceptions def, Capitalization.exceptRe def)]\<rparr>"

definition sampleAddSpelling ::
  "string \<Rightarrow> Spelling \<Rightarrow> sampleChecks Manager \<Rightarrow> sampleChecks Manager" where
  "sampleAddSpelling name def mgr =
     mgr\<lparr>Checks := Checks mgr @ [(name, Spelling.Exceptions def, Spelling.exceptRe def)]\<rparr>"

definition sampleFlags :: "bool \<Rightarrow> CLIFlags" where
  "sampleFlags noExit = \<lparr>Path = [], Output = ''CLI'', Glob = ''*'', NoExit = noExit\<rparr>"

definition sampleManager :: "string list \<Rightarrow> sampleChecks Manager" where
  "sampleManager accepted =
     \<lparr>Config = \<lparr>AcceptedTokens = accepted, Flags = sampleFlags False\<rparr>, Checks = []\<rparr>"

definition sampleLib :: lib where
  "sampleLib =
     \<lparr>rxValid = (\<lambda>p. count_list p CHR ''('' = count_list p CHR '')''),
      FindStringSubmatch = (\<lambda>p s. None),
      ToLower = (\<lambda>s. s)\<rparr>"

definition sampleRule :: baseCheck where
  "sampleRule = [''max'' \<mapsto> VStr ''many'', ''tokens'' \<mapsto> VList []]"

text \<open>
  A token decoder that reads a tag and a skip count, a manager that records the ignore
  files and the filters of a spelling check, and a command line: the files
  \<^verbatim>\<open>README.md\<close> and \<^verbatim>\<open>docs/guide.md\<close> and the directory \<^verbatim>\<open>docs\<close> exist, the standard
  input is a terminal, and every step outside the sources succeeds.
\<close>

definition sampleToken :: "val \<Rightarrow> NLPToken \<Rightarrow> NLPToken" where
  "sampleToken token tok =
     (case token of
        VMap [(''tag'', VStr t), (''skip'', VInt k)] \<Rightarrow> tok\<lparr>Tag := t, Skip := k\<rparr>
      | VMap [(''tag'', VStr t)] \<Rightarrow> tok\<lparr>Tag := t\<rparr>
      | _ \<Rightarrow> tok)"

definition sampleAddFiles ::
  "string \<Rightarrow> Spelling \<Rightarrow> (string \<times> string list \<times> regexp list) list Manager \<Rightarrow>
     (string \<times> string list \<times> regexp list) list Manager" where
  "sampleAddFiles name def mgr = mgr\<lparr>Checks := Checks mgr @ [(name, Ignore def, Filters def)]\<rparr>"

definition sampleFilesManager :: "(string \<times> string list \<times> regexp list) list Manager" where
  "sampleFilesManager =
     \<lparr>Config = \<lparr>AcceptedTokens = [], Flags = sampleFlags False\<rparr>, Checks = []\<rparr>"

definition sampleSystem :: system where
  "sampleSystem =
     \<lparr>FileExists = (\<lambda>p. p = ''README.md'' \<or> p = ''docs/guide.md''),
      IsDir = (\<lambda>p. p = ''docs''),
      StdinStat = Some True,
      StdinReadAll = Inr []\<rparr>"

definition sampleLinter :: "string Linter" where
  "sampleLinter =
     \<lparr>LintString = (\<lambda>s. ([''stdin''], None)), Lint = (\<lambda>files glob. (files, None))\<rparr>"

definition sampleProgram :: "string list \<Rightarrow> bool \<Rightarrow> bool \<Rightarrow> string program" where
  "sampleProgram args hasErrors noExit =
     \<lparr>system = sampleSystem,
      flags = sampleFlags noExit,
      Args = args,
      NewConfig = (\<lambda>f. (\<lparr>AcceptedTokens = [], Flags = f\<rparr>, None)),
      commands = [''ls-config'', ''new-rule''],
      doCommand = (\<lambda>c. if c = ''ls-config'' then None else Some (E100 c ''failed'')),
      printIntro = Some 0,
      From = (\<lambda>format config. (config, None)),
      NewLinter = (\<lambda>config. (sampleLinter, None)),
      PrintAlerts = (\<lambda>linted config. (hasErrors, None))\<rparr>"

text \<open>
  Two decoders that, as a decoder does for a key present in the mapping, write the list
  under \<^verbatim>\<open>exceptions\<close> into the field \<^verbatim>\<open>Exceptions\<close>; and a command line whose standard
  input is a pipe holding \<^verbatim>\<open>some text\<close> and whose linter fails on every call.
\<close>

definition stringsOf :: "val list \<Rightarrow> string list" where
  "stringsOf vs = concat (map (\<lambda>v. case v of VStr s \<Rightarrow> [s] | _ \<Rightarrow> []) vs)"

definition sampleDecodeConditional :: "(baseCheck, Conditional) decoder" where
  "sampleDecodeConditional generic def =
     (case index generic ''exceptions'' of
        VNil \<Rightarrow> Inr def
      | VList vs \<Rightarrow> Inr (def\<lparr>Conditional.Exceptions := stringsOf vs\<rparr>)
      | _ \<Rightarrow> Inl (''* '' @ quoted ''exceptions'' @ '' expected type '' @ quoted ''[]string''))"

definition sampleDecodeSpelling :: "(baseCheck, Spelling) decoder" where
  "sampleDecodeSpelling generic def =
     (case index generic ''exceptions'' of
        VNil \<Rightarrow> Inr def
      | VList vs \<Rightarrow> Inr (def\<lparr>Spelling.Exceptions := stringsOf vs\<rparr>)
      | _ \<Rightarrow> Inl (''* '' @ quoted ''exceptions'' @ '' expected type '' @ quoted ''[]string''))"

definition samplePipedSystem :: system where
  "samplePipedSystem = sampleSystem\<lparr>StdinStat := Some False, StdinReadAll := Inr ''some text''\<rparr>"

definition sampleFailingLinter :: "string Linter" where
  "sampleFailingLinter =
     \<lparr>LintString = (\<lambda>s. ([], Some (E100 ''lintString'' ''dictionary not found''))),
      Lint = (\<lambda>files glob. ([], Some (E100 ''lintFiles'' ''dictionary not found'')))\<rparr>"

definition sampleFailingProgram :: "string list \<Rightarrow> string program" where
  "sampleFailingProgram args =
     (sampleProgram args False False)
       \<lparr>system := samplePipedSystem, NewLinter := (\<lambda>config. (sampleFailingLinter, None))\<rparr>"

section \<open>Properties of the header validation\<close>

lemma rests_levelRx:
  "rests levelRx u \<noteq> [] \<longleftrightarrow> u = ''suggestion'' \<or> u = ''warning'' \<or> u = ''error''"
proof -
  have lit: "concat (map (rests EndText) (rests (Lit l) u)) \<noteq> [] \<longleftrightarrow> u = l" for l
  proof (cases "take (length l) u = l")
    case True
    then have "u = l @ drop (length l) u" by (metis append_take_drop_id)
    with True show ?thesis by auto
  next
    case False
    then show ?thesis by auto
  qed
  show ?thesis
    unfolding levelRx_def
    using lit [of "''suggestion''"] lit [of "''warning''"] lit [of "''error''"]
    by (simp del: rests.simps(1))
qed

lemma MatchString_suffix:
  "MatchString r s \<longleftrightarrow> (\<exists>u. suffix u s \<and> rests r u \<noteq> [])"
proof
  assume "MatchString r s"
  then obtain i where "rests r (drop i s) \<noteq> []"
    by (auto simp: MatchString_def list_ex_iff simp del: upt_Suc)
  moreover have "suffix (drop i s) s" by (rule suffix_drop)
  ultimately show "\<exists>u. suffix u s \<and> rests r u \<noteq> []" by blast
next
  assume "\<exists>u. suffix u s \<and> rests r u \<noteq> []"
  then obtain u where u: "suffix u s" "rests r u \<noteq> []" by blast
  then obtain z where "s = z @ u" by (auto simp: suffix_def)
  then have "drop (length z) s = u" "length z \<le> length s" by auto
  with u show "MatchString r s"
    unfolding MatchString_def list_ex_iff
    by (intro bexI [of _ "length z"]) (auto simp del: upt_Suc)
qed

text \<open>
  The level function accepts exactly the strings that end with one of the three tokens:
  the pattern is anchored at the end of the text only.
\<close>

lemma isValidLevel_accepts:
  "isValidLevel v param = None \<longleftrightarrow>
     suffix ''suggestion'' v \<or> suffix ''warning'' v \<or> suffix ''error'' v"
  unfolding isValidLevel_def MatchString_suffix rests_levelRx by auto

lemma isValidLevel_tokens:
  "isValidLevel ''suggestion'' param = None \<and> isValidLevel ''warning'' param = None \<and>
   isValidLevel ''error'' param = None"
  by (simp add: isValidLevel_accepts)

text \<open>
  Claim C3: the level function accepts a string if and only if it is exactly one of
  \<^verbatim>\<open>suggestion\<close>, \<^verbatim>\<open>warning\<close>, \<^verbatim>\<open>error\<close>, and returns its error for every other
  string. The code accepts \<^verbatim>\<open>xerror\<close>, which is none of the three tokens and which the
  function's own message excludes: it returns nil there.
\<close>

theorem isValidLevel_accepts_xerror: "isValidLevel ''xerror'' param = None"
  by (simp add: isValidLevel_def MatchString_def levelRx_def)

text \<open>
  On a mapping whose \<^verbatim>\<open>extends\<close> is absent or a string, \<^verbatim>\<open>validateDefinition\<close> returns,
  and returns an error exactly in the three cases of the header validation.
\<close>

lemma validateDefinition_missing_extends:
  "generic ''extends'' = None \<Longrightarrow>
   validateDefinition generic name path =
     Returns (Some (E201FromPosition
       (quoted name @ '' is missing the required '' @ quoted ''extends'' @ '' key.'') path 1))"
  by (simp add: validateDefinition_def)

lemma validateDefinition_string_extends:
  "generic ''extends'' = Some (VStr point) \<Longrightarrow>
   validateDefinition generic name path =
     Returns
       (if point \<notin> set extensionPoints then
          Some (E201FromTarget
            (quoted ''extends'' @ '' key must be one of '' @ showSlice extensionPoints @ ''.'')
            point path)
        else if generic ''message'' = None then
          Some (E201FromPosition
            (quoted name @ '' is missing the required '' @ quoted ''message'' @ '' key.'') path 1)
        else None)"
  by (auto simp: validateDefinition_def StringInSlice_def split: option.splits)

lemma validateDefinition_Panics_iff:
  "validateDefinition generic name path = Panics \<longleftrightarrow>
     (\<exists>v. generic ''extends'' = Some v \<and> (\<forall>point. v \<noteq> VStr point))"
  by (auto simp: validateDefinition_def split: option.splits val.splits)

text \<open>
  Claim C2: for every rule definition mapping, \<^verbatim>\<open>validateDefinition\<close> returns a
  configuration error if and only if \<^verbatim>\<open>extends\<close> is missing, or its value is not one of
  the ten kinds, or \<^verbatim>\<open>message\<close> is missing, and returns nil otherwise. On the mapping
  \<^verbatim>\<open>{extends: 5, message: "m"}\<close> the value of \<^verbatim>\<open>extends\<close> is not one of the ten kinds, and
  the function returns no error: the unchecked assertion \<^verbatim>\<open>point.(string)\<close> panics.
\<close>

theorem validateDefinition_extends_not_string:
  "validateDefinition [''extends'' \<mapsto> VInt 5, ''message'' \<mapsto> VStr ''m''] name path = Panics"
  by (simp add: validateDefinition_def)

section \<open>Decode errors in the builders\<close>

text \<open>
  The existence and the substitution builder turn an error of the decoder into their
  return value and leave the manager as it is.
\<close>

lemma existenceBuilder_decode_error:
  "dec generic Existence_zero = Inl err \<Longrightarrow> readStructureError L err name path = Returns e \<Longrightarrow>
   existenceBuilder L dec add name path generic mgr = Returns (Some e, mgr)"
  by (simp add: existenceBuilder_def failWith_def)

lemma substitutionBuilder_decode_error:
  "dec generic Substitution_zero = Inl err \<Longrightarrow> readStructureError L err name path = Returns e \<Longrightarrow>
   substitutionBuilder L dec add name path generic mgr = Returns (Some e, mgr)"
  by (simp add: substitutionBuilder_def failWith_def)

text \<open>
  Claim C1: for every rule kind, a failure to decode the rule definition mapping makes
  the builder return a configuration error, the rule is not added, and compilation goes
  on; the builders for occurrence, repetition, consistency, conditional, capitalization,
  readability, spelling and sequence surface the error as the existence and substitution
  builders do. In the code each of these eight builders returns nil when the decoder
  fails: the rule is not added and no error is returned.
\<close>

theorem silent_builders_discard_decode_errors:
  "(decO generic Occurrence_zero = Inl err \<longrightarrow>
      occurrenceBuilder decO addO name path generic mgr = Returns (None, mgr)) \<and>
   (decR generic Repetition_zero = Inl err \<longrightarrow>
      repetitionBuilder decR addR name path generic mgr = Returns (None, mgr)) \<and>
   (decC generic Consistency_zero = Inl err \<longrightarrow>
      consistencyBuilder decC addC name path generic mgr = Returns (None, mgr)) \<and>
   (decCo generic Conditional_zero = Inl err \<longrightarrow>
      conditionalBuilder L decCo addCo name path generic mgr = Returns (None, mgr)) \<and>
   (decCa generic Capitalization_zero = Inl err \<longrightarrow>
      capitalizationBuilder L decCa addCa name path generic mgr = Returns (None, mgr)) \<and>
   (decRe generic Readability_zero = Inl err \<longrightarrow>
      readabilityBuilder decRe addRe name path generic mgr = Returns (None, mgr)) \<and>
   (spellingFilters L generic Spelling_zero = Returns (genericF, defF) \<longrightarrow>
    spellingIgnore genericF defF = Returns (genericI, defI) \<longrightarrow>
    spellingAccepted L ignoreCase (AcceptedTokens (Config mgr)) defI = Returns defA \<longrightarrow>
    decSp genericI defA = Inl err \<longrightarrow>
      spellingBuilder L ignoreCase decSp addSp name path generic mgr = Returns (None, mgr)) \<and>
   (index generic ''tokens'' = VList entries \<longrightarrow>
    decSe (delete generic ''tokens'')
      (Sequence_zero\<lparr>Sequence.Tokens := sequenceTokens decTok entries []\<rparr>) = Inl err \<longrightarrow>
      sequenceBuilder decTok decSe addSe name path generic mgr = Returns (None, mgr))"
  by (simp add: occurrenceBuilder_def repetitionBuilder_def consistencyBuilder_def
      conditionalBuilder_def capitalizationBuilder_def readabilityBuilder_def
      spellingBuilder_def sequenceBuilder_def decodeConditional_def decodeCapitalization_def
      decodeSpelling_def decodeSequence_def Sequence_zero_def)

theorem silent_builders_discard_decode_errors_witness:
  "occurrenceBuilder (sampleDecoder ''max'') sampleAdd ''Many'' ''Many.yml'' sampleRule
     (sampleManager []) = Returns (None, sampleManager []) \<and>
   repetitionBuilder (sampleDecoder ''max'') sampleAdd ''Many'' ''Many.yml'' sampleRule
     (sampleManager []) = Returns (None, sampleManager []) \<and>
   consistencyBuilder (sampleDecoder ''max'') sampleAdd ''Many'' ''Many.yml'' sampleRule
     (sampleManager []) = Returns (None, sampleManager []) \<and>
   conditionalBuilder sampleLib (sampleDecoder ''max'') sampleAdd ''Many'' ''Many.yml'' sampleRule
     (sampleManager []) = Returns (None, sampleManager []) \<and>
   capitalizationBuilder sampleLib (sampleDecoder ''max'') sampleAdd ''Many'' ''Many.yml''
     sampleRule (sampleManager []) = Returns (None, sampleManager []) \<and>
   readabilityBuilder (sampleDecoder ''max'') sampleAdd ''Many'' ''Many.yml'' sampleRule
     (sampleManager []) = Returns (None, sampleManager []) \<and>
   spellingBuilder sampleLib ''(?i)'' (sampleDecoder ''max'') sampleAdd ''Many'' ''Many.yml''
     sampleRule (sampleManager []) = Returns (None, sampleManager []) \<and>
   sequenceBuilder (\<lambda>token tok. tok) (sampleDecoder ''max'') sampleAdd ''Many'' ''Many.yml''
     sampleRule (sampleManager []) = Returns (None, sampleManager [])"
  using silent_builders_discard_decode_errors
    [where decO = "sampleDecoder ''max''" and decR = "sampleDecoder ''max''"
       and decC = "sampleDecoder ''max''" and decCo = "sampleDecoder ''max''"
       and decCa = "sampleDecoder ''max''" and decRe = "sampleDecoder ''max''"
       and decSp = "sampleDecoder ''max''" and decSe = "sampleDecoder ''max''"
       and generic = sampleRule and mgr = "sampleManager []"
       and err = "''* '' @ quoted ''max'' @ '' expected type '' @ quoted ''int''"
       and L = sampleLib and ignoreCase = "''(?i)''"
       and genericF = sampleRule and genericI = sampleRule
       and defF = Spelling_zero and defI = Spelling_zero and defA = Spelling_zero
       and entries = "[]" and decTok = "\<lambda>token tok. tok"
       and addO = sampleAdd and addR = sampleAdd and addC = sampleAdd and addCo = sampleAdd
       and addCa = sampleAdd and addRe = sampleAdd and addSp = sampleAdd and addSe = sampleAdd
       and name = "''Many''" and path = "''Many.yml''"]
  by (simp add: sampleDecoder_def sampleRule_def index_def delete_def spellingFilters_def
      spellingIgnore_def sampleManager_def)

section \<open>Accepted tokens\<close>

lemma appendTerms_append: "appendTerms exceptions ts = exceptions @ ts"
  by (induction ts arbitrary: exceptions) auto

lemma spellingAccepted_Returns:
  "spellingAccepted L ignoreCase ts def = Returns d \<Longrightarrow>
   d = def\<lparr>Spelling.Exceptions := Spelling.Exceptions def @ ts,
           Spelling.exceptRe :=
             (if ts = [] then Spelling.exceptRe def
              else Some (ignoreCase @ Join (Spelling.Exceptions def @ ts) ''|''))\<rparr>"
proof (induction ts arbitrary: def)
  case Nil
  then show ?case by simp
next
  case (Cons t ts)
  let ?ex = "Spelling.Exceptions def @ [t]"
  from Cons.prems obtain rx where
    rx: "MustCompile L (ignoreCase @ Join ?ex ''|'') = Returns rx" and
    rest: "spellingAccepted L ignoreCase ts
             (def\<lparr>Spelling.Exceptions := ?ex, Spelling.exceptRe := Some rx\<rparr>) = Returns d"
    by (auto simp: Let_def split: result.splits)
  from rx have "rx = ignoreCase @ Join ?ex ''|''"
    by (auto simp: MustCompile_def Compile_def split: if_splits)
  with Cons.IH [OF rest] show ?case by (cases ts) auto
qed

lemma spellingFilters_keeps:
  "spellingFilters L generic def = Returns (g, d) \<Longrightarrow>
   Spelling.Exceptions d = Spelling.Exceptions def \<and> Spelling.exceptRe d = Spelling.exceptRe def"
  by (auto simp: spellingFilters_def split: if_splits val.splits result.splits)

lemma spellingIgnore_keeps:
  "spellingIgnore generic def = Returns (g, d) \<Longrightarrow>
   Spelling.Exceptions d = Spelling.Exceptions def \<and> Spelling.exceptRe d = Spelling.exceptRe def"
  by (auto simp: spellingIgnore_def split: if_splits val.splits result.splits)

text \<open>
  What the three builders hand to the manager. For a conditional or a capitalization rule
  that decodes to \<open>d\<close>, the check added has the exceptions of \<open>d\<close> followed by the
  accepted tokens, and its expression is compiled from these joined by \<^verbatim>\<open>|\<close> (the builder
  panics when that pattern is malformed). The spelling builder appends the accepted
  tokens to the empty exceptions of the struct before it decodes the mapping into that
  struct; the check added is the decoded struct, with the expression compiled from
  \<^verbatim>\<open>ignoreCase\<close> and the accepted tokens joined by \<^verbatim>\<open>|\<close>.
\<close>

lemma accepted_tokens_in_exceptions:
  "(decCo generic Conditional_zero = Inr dCo \<longrightarrow>
      conditionalBuilder L decCo addCo name path generic mgr =
        (let exceptions = Conditional.Exceptions dCo @ AcceptedTokens (Config mgr)
         in if rxValid L (Join exceptions ''|'') then
              Returns (None, addCo name
                (dCo\<lparr>Conditional.Exceptions := exceptions,
                     Conditional.exceptRe := Some (Join exceptions ''|'')\<rparr>) mgr)
            else Panics)) \<and>
   (decCa generic Capitalization_zero = Inr dCa \<longrightarrow>
      capitalizationBuilder L decCa addCa name path generic mgr =
        (let exceptions = Capitalization.Exceptions dCa @ AcceptedTokens (Config mgr)
         in if rxValid L (Join exceptions ''|'') then
              Returns (None, addCa name
                (dCa\<lparr>Capitalization.Exceptions := exceptions,
                     Capitalization.exceptRe := Some (Join exceptions ''|'')\<rparr>) mgr)
            else Panics)) \<and>
   (spellingFilters L generic Spelling_zero = Returns (genericF, defF) \<longrightarrow>
    spellingIgnore genericF defF = Returns (genericI, defI) \<longrightarrow>
    spellingBuilder L ignoreCase decSp addSp name path generic mgr = Returns r \<longrightarrow>
      (let accepted = AcceptedTokens (Config mgr);
           rx = (if accepted = [] then None else Some (ignoreCase @ Join accepted ''|''));
           def = defI\<lparr>Spelling.Exceptions := accepted, Spelling.exceptRe := rx\<rparr>
       in r = (case decSp genericI def of
                 Inr d \<Rightarrow> (None, addSp name (d\<lparr>Spelling.exceptRe := rx\<rparr>) mgr)
               | Inl err \<Rightarrow> (None, mgr))))"
proof (intro conjI impI)
  assume "decCo generic Conditional_zero = Inr dCo"
  then show "conditionalBuilder L decCo addCo name path generic mgr =
        (let exceptions = Conditional.Exceptions dCo @ AcceptedTokens (Config mgr)
         in if rxValid L (Join exceptions ''|'') then
              Returns (None, addCo name
                (dCo\<lparr>Conditional.Exceptions := exceptions,
                     Conditional.exceptRe := Some (Join exceptions ''|'')\<rparr>) mgr)
            else Panics)"
    by (simp add: conditionalBuilder_def decodeConditional_def appendTerms_append
        MustCompile_def Compile_def Let_def)
next
  assume "decCa generic Capitalization_zero = Inr dCa"
  then show "capitalizationBuilder L decCa addCa name path generic mgr =
        (let exceptions = Capitalization.Exceptions dCa @ AcceptedTokens (Config mgr)
         in if rxValid L (Join exceptions ''|'') then
              Returns (None, addCa name
                (dCa\<lparr>Capitalization.Exceptions := exceptions,
                     Capitalization.exceptRe := Some (Join exceptions ''|'')\<rparr>) mgr)
            else Panics)"
    by (simp add: capitalizationBuilder_def decodeCapitalization_def appendTerms_append
        MustCompile_def Compile_def Let_def)
next
  assume f: "spellingFilters L generic Spelling_zero = Returns (genericF, defF)"
    and i: "spellingIgnore genericF defF = Returns (genericI, defI)"
    and b: "spellingBuilder L ignoreCase decSp addSp name path generic mgr = Returns r"
  let ?acc = "AcceptedTokens (Config mgr)"
  let ?rx = "if ?acc = [] then None else Some (ignoreCase @ Join ?acc ''|'')"
  from spellingFilters_keeps [OF f] spellingIgnore_keeps [OF i]
  have zero: "Spelling.Exceptions defI = []" "Spelling.exceptRe defI = None"
    by (simp_all add: Spelling_zero_def)
  from b f i obtain defA where
    a: "spellingAccepted L ignoreCase ?acc defI = Returns defA" and
    r: "r = (case decodeSpelling decSp genericI defA of
               Inr d \<Rightarrow> (None, addSp name d mgr) | Inl err \<Rightarrow> (None, mgr))"
    by (auto simp: spellingBuilder_def split: result.splits sum.splits)
  from spellingAccepted_Returns [OF a] zero
  have defA: "defA = defI\<lparr>Spelling.Exceptions := ?acc, Spelling.exceptRe := ?rx\<rparr>"
    by simp
  have rxA: "Spelling.exceptRe defA = ?rx" unfolding defA by simp
  show "let accepted = AcceptedTokens (Config mgr);
           rx = (if accepted = [] then None else Some (ignoreCase @ Join accepted ''|''));
           def = defI\<lparr>Spelling.Exceptions := accepted, Spelling.exceptRe := rx\<rparr>
       in r = (case decSp genericI def of
                 Inr d \<Rightarrow> (None, addSp name (d\<lparr>Spelling.exceptRe := rx\<rparr>) mgr)
               | Inl err \<Rightarrow> (None, mgr))"
    unfolding Let_def r decodeSpelling_def rxA unfolding defA
    by (simp split: sum.splits)
qed

lemma accepted_tokens_sample_rules:
  "conditionalBuilder sampleLib (\<lambda>g d. Inr (d\<lparr>Conditional.Exceptions := [''API'']\<rparr>))
     sampleAddConditional ''Rule'' ''Rule.yml'' Map.empty (sampleManager [''GitHub'', ''macOS''])
   = Returns (None, (sampleManager [''GitHub'', ''macOS''])
       \<lparr>Checks := [(''Rule'', [''API'', ''GitHub'', ''macOS''], Some ''API|GitHub|macOS'')]\<rparr>) \<and>
   capitalizationBuilder sampleLib (\<lambda>g d. Inr (d\<lparr>Capitalization.Exceptions := [''API'']\<rparr>))
     sampleAddCapitalization ''Rule'' ''Rule.yml'' Map.empty (sampleManager [''GitHub'', ''macOS''])
   = Returns (None, (sampleManager [''GitHub'', ''macOS''])
       \<lparr>Checks := [(''Rule'', [''API'', ''GitHub'', ''macOS''], Some ''API|GitHub|macOS'')]\<rparr>) \<and>
   spellingBuilder sampleLib ''(?i)'' (sampleDecoder ''threshold'')
     sampleAddSpelling ''Rule'' ''Rule.yml'' Map.empty (sampleManager [''GitHub'', ''macOS''])
   = Returns (None, (sampleManager [''GitHub'', ''macOS''])
       \<lparr>Checks := [(''Rule'', [''GitHub'', ''macOS''], Some ''(?i)GitHub|macOS'')]\<rparr>)"
proof -
  let ?mgr = "sampleManager [''GitHub'', ''macOS'']"
  have sp: "spellingBuilder sampleLib ''(?i)'' (sampleDecoder ''threshold'')
     sampleAddSpelling ''Rule'' ''Rule.yml'' Map.empty ?mgr
   = Returns (None, ?mgr\<lparr>Checks := [(''Rule'', [''GitHub'', ''macOS''], Some ''(?i)GitHub|macOS'')]\<rparr>)"
    by (simp add: spellingBuilder_def spellingFilters_def spellingIgnore_def index_def
        sampleManager_def sampleLib_def MustCompile_def Compile_def decodeSpelling_def
        sampleDecoder_def sampleAddSpelling_def Spelling_zero_def)
  show ?thesis
    using accepted_tokens_in_exceptions
      [where decCo = "\<lambda>g d. Inr (d\<lparr>Conditional.Exceptions := [''API'']\<rparr>)"
         and dCo = "Conditional_zero\<lparr>Conditional.Exceptions := [''API'']\<rparr>"
         and decCa = "\<lambda>g d. Inr (d\<lparr>Capitalization.Exceptions := [''API'']\<rparr>)"
         and dCa = "Capitalization_zero\<lparr>Capitalization.Exceptions := [''API'']\<rparr>"
         and generic = Map.empty and L = sampleLib and mgr = ?mgr
         and addCo = sampleAddConditional and addCa = sampleAddCapitalization
         and name = "''Rule''" and path = "''Rule.yml''"
         and genericF = Map.empty and defF = Spelling_zero
         and genericI = Map.empty and defI = Spelling_zero
         and ignoreCase = "''(?i)''" and decSp = "sampleDecoder ''threshold''"
         and addSp = sampleAddSpelling
         and r = "(None, ?mgr\<lparr>Checks := [(''Rule'', [''GitHub'', ''macOS''], Some ''(?i)GitHub|macOS'')]\<rparr>)"]
      sp
    by (simp add: sampleLib_def sampleManager_def sampleAddConditional_def
        sampleAddCapitalization_def Conditional_zero_def Capitalization_zero_def)
qed

lemma spellingBuilder_decodes_last:
  "spellingFilters L generic Spelling_zero = Returns (genericF, defF) \<Longrightarrow>
   spellingIgnore genericF defF = Returns (genericI, defI) \<Longrightarrow>
   spellingAccepted L ignoreCase (AcceptedTokens (Config mgr)) defI = Returns defA \<Longrightarrow>
   decSp genericI defA = Inr d \<Longrightarrow>
   spellingBuilder L ignoreCase decSp addSp name path generic mgr =
     Returns (None, addSp name (d\<lparr>Spelling.exceptRe := Spelling.exceptRe defA\<rparr>) mgr)"
  by (simp add: spellingBuilder_def decodeSpelling_def)

text \<open>
  Claim C4: when a conditional, capitalization or spelling rule is compiled, every term
  of the accepted tokens is appended to the rule's exceptions and is part of the
  alternation its exception expression is compiled from. The spelling builder appends the
  tokens before it decodes the mapping, where the conditional and the capitalization
  builder append them after: on a spelling rule with \<^verbatim>\<open>exceptions: [API]\<close> and the accepted
  token \<^verbatim>\<open>GitHub\<close>, the check added has the exceptions \<^verbatim>\<open>[API]\<close>, without the accepted
  token, and an expression compiled from the accepted token alone. The conditional
  builder on the same mapping adds a check with both.
\<close>

theorem spelling_exceptions_replace_accepted_tokens:
  "spellingBuilder sampleLib ''(?i)'' sampleDecodeSpelling sampleAddSpelling ''Rule'' ''Rule.yml''
     [''exceptions'' \<mapsto> VList [VStr ''API'']] (sampleManager [''GitHub'']) =
   Returns (None, (sampleManager [''GitHub''])
     \<lparr>Checks := [(''Rule'', [''API''], Some ''(?i)GitHub'')]\<rparr>) \<and>
   conditionalBuilder sampleLib sampleDecodeConditional sampleAddConditional ''Rule'' ''Rule.yml''
     [''exceptions'' \<mapsto> VList [VStr ''API'']] (sampleManager [''GitHub'']) =
   Returns (None, (sampleManager [''GitHub''])
     \<lparr>Checks := [(''Rule'', [''API'', ''GitHub''], Some ''API|GitHub'')]\<rparr>)"
proof (intro conjI)
  show "spellingBuilder sampleLib ''(?i)'' sampleDecodeSpelling sampleAddSpelling ''Rule'' ''Rule.yml''
     [''exceptions'' \<mapsto> VList [VStr ''API'']] (sampleManager [''GitHub'']) =
   Returns (None, (sampleManager [''GitHub''])
     \<lparr>Checks := [(''Rule'', [''API''], Some ''(?i)GitHub'')]\<rparr>)"
    by (simp add: spellingBuilder_def spellingFilters_def spellingIgnore_def index_def
        sampleManager_def sampleLib_def MustCompile_def Compile_def decodeSpelling_def
        sampleDecodeSpelling_def stringsOf_def sampleAddSpelling_def Spelling_zero_def)
next
  show "conditionalBuilder sampleLib sampleDecodeConditional sampleAddConditional ''Rule'' ''Rule.yml''
     [''exceptions'' \<mapsto> VList [VStr ''API'']] (sampleManager [''GitHub'']) =
   Returns (None, (sampleManager [''GitHub''])
     \<lparr>Checks := [(''Rule'', [''API'', ''GitHub''], Some ''API|GitHub'')]\<rparr>)"
    by (simp add: conditionalBuilder_def index_def sampleManager_def sampleLib_def
        MustCompile_def Compile_def decodeConditional_def sampleDecodeConditional_def
        stringsOf_def sampleAddConditional_def Conditional_zero_def)
qed

section \<open>Properties of the sequence builder\<close>

lemma skipLoop_replicate: "skipLoop i tok tokens = tokens @ replicate (nat i) tok"
proof (induction i tok tokens rule: skipLoop.induct)
  case (1 i tok tokens)
  show ?case
  proof (cases "0 < i")
    case True
    then have n: "nat i = Suc (nat (i - 1))" by simp
    have "skipLoop i tok tokens = skipLoop (i - 1) tok (tokens @ [tok])"
      using True by (simp add: skipLoop.simps [of i])
    also have "\<dots> = (tokens @ [tok]) @ replicate (nat (i - 1)) tok"
      using True by (rule "1.IH")
    also have "\<dots> = tokens @ replicate (nat i) tok"
      unfolding n by simp
    finally show ?thesis .
  next
    case False
    then show ?thesis by (simp add: skipLoop.simps [of i])
  qed
qed

lemma decodeToken_zero:
  "optional (decodeToken decTok token NLPToken_zero) = False \<and>
   re (decodeToken decTok token NLPToken_zero) = None"
  by (simp add: decodeToken_def NLPToken_zero_def)

lemma sequenceTokens_expansion:
  "sequenceTokens decTok entries tokens =
     tokens @ concat (map (\<lambda>token. skipExpansion (decodeToken decTok token NLPToken_zero)) entries)"
proof (induction entries arbitrary: tokens)
  case Nil
  then show ?case by simp
next
  case (Cons token entries)
  let ?tok = "decodeToken decTok token NLPToken_zero"
  have "?tok\<lparr>optional := False\<rparr> = ?tok"
    using decodeToken_zero [of decTok token] by simp
  then have "skipExpansion ?tok = ?tok # replicate (nat (Skip ?tok)) (?tok\<lparr>optional := True\<rparr>)"
    by (simp add: skipExpansion_def)
  then show ?case
    by (simp add: Cons.IH Let_def skipLoop_replicate)
qed

text \<open>
  Claim C7: compiling a sequence rule expands each token entry carrying \<^verbatim>\<open>skip: k\<close> into
  \<open>1 + k\<close> consecutive entries of the compiled token list, the entry itself followed by
  \<open>k\<close> copies marked optional; an entry with skip 0 is kept as a single entry that is not
  optional. The token list that the builder compiles is the concatenation of these
  expansions, in the order of the entries, and it is the list of the struct that the rest
  of the mapping is decoded into.
\<close>

theorem sequence_skip_expansion:
  "sequenceTokens decTok entries [] =
     concat (map (\<lambda>token. skipExpansion (decodeToken decTok token NLPToken_zero)) entries) \<and>
   (0 \<le> Skip tok \<longrightarrow> int (length (skipExpansion tok)) = 1 + Skip tok) \<and>
   (Skip tok = 0 \<longrightarrow> skipExpansion tok = [tok\<lparr>optional := False\<rparr>]) \<and>
   (index generic ''tokens'' = VList entries \<longrightarrow>
    decSe (delete generic ''tokens'')
      (Sequence_zero\<lparr>Sequence.Tokens :=
         concat (map (\<lambda>token. skipExpansion (decodeToken decTok token NLPToken_zero)) entries)\<rparr>)
      = Inr d \<longrightarrow>
    sequenceBuilder decTok decSe addSe name path generic mgr =
      Returns (None, addSe name (d\<lparr>needsTagging := False, history := []\<rparr>) mgr))"
  by (simp add: sequenceTokens_expansion skipExpansion_def sequenceBuilder_def
      decodeSequence_def Sequence_zero_def)

theorem sequence_skip_expansion_witness:
  "sequenceBuilder sampleToken (\<lambda>g d. Inr d)
     (\<lambda>name d mgr. mgr\<lparr>Checks := map (\<lambda>t. (Tag t, Skip t, optional t)) (Sequence.Tokens d)\<rparr>)
     ''Seq'' ''Seq.yml''
     [''tokens'' \<mapsto> VList [VMap [(''tag'', VStr ''NN''), (''skip'', VInt 2)],
                             VMap [(''tag'', VStr ''VB'')]]]
     \<lparr>Config = \<lparr>AcceptedTokens = [], Flags = sampleFlags False\<rparr>, Checks = []\<rparr>
   = Returns (None,
       \<lparr>Config = \<lparr>AcceptedTokens = [], Flags = sampleFlags False\<rparr>,
        Checks = [(''NN'', 2, False), (''NN'', 2, True), (''NN'', 2, True),
                  (''VB'', 0, False)]\<rparr>)"
  using sequence_skip_expansion
    [where decTok = sampleToken and decSe = "\<lambda>g d. Inr d"
       and generic = "[''tokens'' \<mapsto> VList [VMap [(''tag'', VStr ''NN''), (''skip'', VInt 2)],
                             VMap [(''tag'', VStr ''VB'')]]]"
       and entries = "[VMap [(''tag'', VStr ''NN''), (''skip'', VInt 2)],
                             VMap [(''tag'', VStr ''VB'')]]"
       and tok = NLPToken_zero
       and d = "Sequence_zero\<lparr>Sequence.Tokens :=
         concat (map (\<lambda>token. skipExpansion (decodeToken sampleToken token NLPToken_zero))
           [VMap [(''tag'', VStr ''NN''), (''skip'', VInt 2)], VMap [(''tag'', VStr ''VB'')]])\<rparr>"
       and addSe = "\<lambda>name d mgr. mgr\<lparr>Checks := map (\<lambda>t. (Tag t, Skip t, optional t)) (Sequence.Tokens d)\<rparr>"
       and name = "''Seq''" and path = "''Seq.yml''"
       and mgr = "\<lparr>Config = \<lparr>AcceptedTokens = [], Flags = sampleFlags False\<rparr>, Checks = []\<rparr>"]
  by (simp add: index_def skipExpansion_def decodeToken_def sampleToken_def NLPToken_zero_def
      numeral_2_eq_2)

text \<open>The sequence builder has no path that returns an error.\<close>

lemma sequenceBuilder_never_errors:
  "sequenceBuilder decTok decSe addSe name path generic mgr = Returns (e, m) \<Longrightarrow> e = None"
  by (auto simp: sequenceBuilder_def Let_def split: val.splits sum.splits)

text \<open>
  Claim C8: compiling a sequence rule whose mapping has no \<^verbatim>\<open>tokens\<close> key, or whose
  \<^verbatim>\<open>tokens\<close> value is not a list, panics in the unchecked type assertion on
  \<^verbatim>\<open>generic["tokens"]\<close> and returns no configuration error.
\<close>

theorem sequence_without_token_list_panics:
  "generic ''tokens'' = None \<or>
   (\<exists>v. generic ''tokens'' = Some v \<and> (\<forall>entries. v \<noteq> VList entries)) \<Longrightarrow>
   sequenceBuilder decTok decSe addSe name path generic mgr = Panics"
  by (auto simp: sequenceBuilder_def index_def split: val.splits)

theorem sequence_without_token_list_panics_witness:
  "sequenceBuilder (\<lambda>token tok. tok) (sampleDecoder ''max'') sampleAdd ''Seq'' ''Seq.yml''
     Map.empty (sampleManager []) = Panics \<and>
   sequenceBuilder (\<lambda>token tok. tok) (sampleDecoder ''max'') sampleAdd ''Seq'' ''Seq.yml''
     [''tokens'' \<mapsto> VStr ''NN''] (sampleManager []) = Panics"
  using sequence_without_token_list_panics
    [of Map.empty "\<lambda>token tok. tok" "sampleDecoder ''max''" sampleAdd "''Seq''" "''Seq.yml''"
      "sampleManager []"]
    sequence_without_token_list_panics
    [of "[''tokens'' \<mapsto> VStr ''NN'']" "\<lambda>token tok. tok" "sampleDecoder ''max''" sampleAdd
      "''Seq''" "''Seq.yml''" "sampleManager []"]
  by simp

section \<open>Properties of the spelling builder\<close>

lemma appendIgnore_strings: "appendIgnore (map VStr ss) ignored = Returns (ignored @ ss)"
  by (induction ss arbitrary: ignored) auto

lemma compileFilters_strings:
  "compileFilters L (map VStr fs) filters = Returns (filters @ filter (rxValid L) fs)"
  by (induction fs arbitrary: filters) (auto simp: Compile_def)

lemma spellingIgnore_string:
  "spellingIgnore (generic(''ignore'' \<mapsto> VStr s)) def =
     Returns (delete generic ''ignore'', def\<lparr>Ignore := Ignore def @ [s]\<rparr>)"
  by (simp add: spellingIgnore_def index_def delete_def)

lemma spellingIgnore_list:
  "spellingIgnore (generic(''ignore'' \<mapsto> VList (map VStr ss))) def =
     Returns (delete generic ''ignore'', def\<lparr>Ignore := Ignore def @ ss\<rparr>)"
  by (simp add: spellingIgnore_def index_def delete_def appendIgnore_strings)

lemma spellingFilters_other_key:
  "k \<noteq> ''filters'' \<Longrightarrow>
   spellingFilters L (generic(k \<mapsto> v)) def =
     (case spellingFilters L generic def of
        Panics \<Rightarrow> Panics
      | Returns (g, d) \<Rightarrow> Returns (g(k \<mapsto> v), d))"
  by (auto simp: spellingFilters_def index_def delete_def fun_upd_twist
      split: option.splits val.splits result.splits)

lemma spellingFilters_list:
  "spellingFilters L (generic(''filters'' \<mapsto> VList (map VStr fs))) def =
     Returns (delete generic ''filters'', def\<lparr>Filters := Filters def @ filter (rxValid L) fs\<rparr>)"
  by (simp add: spellingFilters_def index_def delete_def compileFilters_strings)

lemma spellingFilters_keeps_ignore:
  "spellingFilters L generic def = Returns (g, d) \<Longrightarrow>
   Ignore d = Ignore def \<and> g ''ignore'' = generic ''ignore''"
  by (auto simp: spellingFilters_def delete_def split: if_splits val.splits result.splits)

lemma spellingBuilder_never_errors:
  "spellingBuilder L ignoreCase dec addSp name path generic mgr = Returns (e, m) \<Longrightarrow> e = None"
  by (auto simp: spellingBuilder_def split: result.splits sum.splits)

text \<open>
  Claim C9: the \<^verbatim>\<open>ignore\<close> field of a spelling rule is a single string or a list of
  strings. A single string \<open>s\<close> compiles as the one-element list of \<open>s\<close> does, with the
  whole builder having the same outcome, and a list adds its elements to \<^verbatim>\<open>Ignore\<close> in
  their order. In the builder \<^verbatim>\<open>Ignore\<close> is empty before, and the step on the filters
  leaves the \<^verbatim>\<open>ignore\<close> key as it is.
\<close>

theorem spelling_ignore_string_or_list:
  "spellingBuilder L ignoreCase dec addSp name path (generic(''ignore'' \<mapsto> VStr s)) mgr =
   spellingBuilder L ignoreCase dec addSp name path (generic(''ignore'' \<mapsto> VList [VStr s])) mgr \<and>
   spellingIgnore (generic(''ignore'' \<mapsto> VStr s)) def =
     Returns (delete generic ''ignore'', def\<lparr>Ignore := Ignore def @ [s]\<rparr>) \<and>
   spellingIgnore (generic(''ignore'' \<mapsto> VList (map VStr ss))) def =
     Returns (delete generic ''ignore'', def\<lparr>Ignore := Ignore def @ ss\<rparr>) \<and>
   (spellingFilters L generic Spelling_zero = Returns (genericF, defF) \<longrightarrow>
      Ignore defF = [] \<and> genericF ''ignore'' = generic ''ignore'')"
proof (intro conjI impI)
  have "spellingIgnore (g(''ignore'' \<mapsto> VStr s)) d =
        spellingIgnore (g(''ignore'' \<mapsto> VList [VStr s])) d" for g d
    using spellingIgnore_list [of g "[s]" d] by (simp add: spellingIgnore_string)
  then show "spellingBuilder L ignoreCase dec addSp name path (generic(''ignore'' \<mapsto> VStr s)) mgr =
    spellingBuilder L ignoreCase dec addSp name path (generic(''ignore'' \<mapsto> VList [VStr s])) mgr"
    by (simp add: spellingBuilder_def spellingFilters_other_key split: result.splits)
next
  show "spellingIgnore (generic(''ignore'' \<mapsto> VStr s)) def =
     Returns (delete generic ''ignore'', def\<lparr>Ignore := Ignore def @ [s]\<rparr>)"
    by (rule spellingIgnore_string)
next
  show "spellingIgnore (generic(''ignore'' \<mapsto> VList (map VStr ss))) def =
     Returns (delete generic ''ignore'', def\<lparr>Ignore := Ignore def @ ss\<rparr>)"
    by (rule spellingIgnore_list)
next
  assume "spellingFilters L generic Spelling_zero = Returns (genericF, defF)"
  from spellingFilters_keeps_ignore [OF this]
  show "Ignore defF = []" "genericF ''ignore'' = generic ''ignore''"
    by (simp_all add: Spelling_zero_def)
qed

theorem spelling_ignore_string_or_list_witness:
  "spellingBuilder sampleLib ''(?i)'' (\<lambda>g d. Inr d) sampleAddFiles ''Spell'' ''Spell.yml''
     [''ignore'' \<mapsto> VStr ''ci/vocab.txt''] sampleFilesManager =
   Returns (None, sampleFilesManager\<lparr>Checks := [(''Spell'', [''ci/vocab.txt''], [])]\<rparr>) \<and>
   spellingBuilder sampleLib ''(?i)'' (\<lambda>g d. Inr d) sampleAddFiles ''Spell'' ''Spell.yml''
     [''ignore'' \<mapsto> VList [VStr ''ci/vocab.txt'']] sampleFilesManager =
   Returns (None, sampleFilesManager\<lparr>Checks := [(''Spell'', [''ci/vocab.txt''], [])]\<rparr>) \<and>
   spellingIgnore [''ignore'' \<mapsto> VList [VStr ''a.txt'', VStr ''b.txt'']] Spelling_zero =
   Returns (Map.empty, Spelling_zero\<lparr>Ignore := [''a.txt'', ''b.txt'']\<rparr>) \<and>
   spellingFilters sampleLib [''ignore'' \<mapsto> VStr ''ci/vocab.txt''] Spelling_zero =
   Returns ([''ignore'' \<mapsto> VStr ''ci/vocab.txt''], Spelling_zero)"
proof -
  have f: "spellingFilters sampleLib [''ignore'' \<mapsto> VStr ''ci/vocab.txt''] Spelling_zero =
     Returns ([''ignore'' \<mapsto> VStr ''ci/vocab.txt''], Spelling_zero)"
    by (simp add: spellingFilters_def index_def)
  have l: "spellingBuilder sampleLib ''(?i)'' (\<lambda>g d. Inr d) sampleAddFiles ''Spell'' ''Spell.yml''
     [''ignore'' \<mapsto> VList [VStr ''ci/vocab.txt'']] sampleFilesManager =
   Returns (None, sampleFilesManager\<lparr>Checks := [(''Spell'', [''ci/vocab.txt''], [])]\<rparr>)"
    by (simp add: spellingBuilder_def spellingFilters_def spellingIgnore_def index_def
        delete_def decodeSpelling_def sampleAddFiles_def sampleFilesManager_def Spelling_zero_def)
  from spelling_ignore_string_or_list
    [where L = sampleLib and ignoreCase = "''(?i)''" and dec = "\<lambda>g d. Inr d"
       and addSp = sampleAddFiles and name = "''Spell''" and path = "''Spell.yml''"
       and generic = Map.empty and s = "''ci/vocab.txt''" and mgr = sampleFilesManager
       and ss = "[''a.txt'', ''b.txt'']" and def = Spelling_zero
       and genericF = "[''ignore'' \<mapsto> VStr ''ci/vocab.txt'']" and defF = Spelling_zero]
    f l
  show ?thesis by (simp add: delete_def Spelling_zero_def)
qed

text \<open>
  Claim C10: when a spelling rule is compiled, every entry of \<^verbatim>\<open>filters\<close> that fails to
  compile as a regular expression is skipped without an error; the well-formed filters
  are compiled, in order, into \<^verbatim>\<open>Filters\<close>, and the rule is still added. The builder has
  the outcome it has on the mapping without the malformed entries, and it returns no
  error.
\<close>

theorem spelling_malformed_filters_skipped:
  "compileFilters L (map VStr fs) filters = Returns (filters @ filter (rxValid L) fs) \<and>
   spellingFilters L (generic(''filters'' \<mapsto> VList (map VStr fs))) Spelling_zero =
     Returns (delete generic ''filters'', Spelling_zero\<lparr>Filters := filter (rxValid L) fs\<rparr>) \<and>
   spellingBuilder L ignoreCase dec addSp name path
       (generic(''filters'' \<mapsto> VList (map VStr fs))) mgr =
     spellingBuilder L ignoreCase dec addSp name path
       (generic(''filters'' \<mapsto> VList (map VStr (filter (rxValid L) fs)))) mgr \<and>
   (spellingBuilder L ignoreCase dec addSp name path
       (generic(''filters'' \<mapsto> VList (map VStr fs))) mgr = Returns (e, m) \<longrightarrow> e = None)"
proof (intro conjI impI)
  show "compileFilters L (map VStr fs) filters = Returns (filters @ filter (rxValid L) fs)"
    by (rule compileFilters_strings)
next
  show "spellingFilters L (generic(''filters'' \<mapsto> VList (map VStr fs))) Spelling_zero =
     Returns (delete generic ''filters'', Spelling_zero\<lparr>Filters := filter (rxValid L) fs\<rparr>)"
    using spellingFilters_list [of L generic fs Spelling_zero] by (simp add: Spelling_zero_def)
next
  have "spellingFilters L (generic(''filters'' \<mapsto> VList (map VStr fs))) Spelling_zero =
        spellingFilters L (generic(''filters'' \<mapsto> VList (map VStr (filter (rxValid L) fs))))
          Spelling_zero"
    by (simp add: spellingFilters_list)
  then show "spellingBuilder L ignoreCase dec addSp name path
       (generic(''filters'' \<mapsto> VList (map VStr fs))) mgr =
     spellingBuilder L ignoreCase dec addSp name path
       (generic(''filters'' \<mapsto> VList (map VStr (filter (rxValid L) fs)))) mgr"
    by (simp add: spellingBuilder_def)
next
  assume "spellingBuilder L ignoreCase dec addSp name path
       (generic(''filters'' \<mapsto> VList (map VStr fs))) mgr = Returns (e, m)"
  then show "e = None" by (rule spellingBuilder_never_errors)
qed

theorem spelling_malformed_filters_skipped_witness:
  "spellingBuilder sampleLib ''(?i)'' (\<lambda>g d. Inr d) sampleAddFiles ''Spell'' ''Spell.yml''
     [''filters'' \<mapsto> VList [VStr ''[a-z]+'', VStr ''(unclosed'', VStr ''[0-9]+'']]
     sampleFilesManager =
   Returns (None, sampleFilesManager\<lparr>Checks := [(''Spell'', [], [''[a-z]+'', ''[0-9]+''])]\<rparr>)"
proof -
  have v: "filter (rxValid sampleLib) [''[a-z]+'', ''(unclosed'', ''[0-9]+''] =
           [''[a-z]+'', ''[0-9]+'']"
    by (simp add: sampleLib_def)
  have r: "spellingBuilder sampleLib ''(?i)'' (\<lambda>g d. Inr d) sampleAddFiles ''Spell'' ''Spell.yml''
     [''filters'' \<mapsto> VList (map VStr [''[a-z]+'', ''[0-9]+''])] sampleFilesManager =
   Returns (None, sampleFilesManager\<lparr>Checks := [(''Spell'', [], [''[a-z]+'', ''[0-9]+''])]\<rparr>)"
    by (simp add: spellingBuilder_def spellingFilters_def spellingIgnore_def index_def
        delete_def decodeSpelling_def sampleAddFiles_def sampleFilesManager_def Spelling_zero_def
        sampleLib_def Compile_def)
  from spelling_malformed_filters_skipped
    [where L = sampleLib and ignoreCase = "''(?i)''" and dec = "\<lambda>g d. Inr d"
       and addSp = sampleAddFiles and name = "''Spell''" and path = "''Spell.yml''"
       and generic = Map.empty and mgr = sampleFilesManager
       and fs = "[''[a-z]+'', ''(unclosed'', ''[0-9]+'']"
       and e = None
       and m = "sampleFilesManager\<lparr>Checks := [(''Spell'', [], [''[a-z]+'', ''[0-9]+''])]\<rparr>"]
  have "spellingBuilder sampleLib ''(?i)'' (\<lambda>g d. Inr d) sampleAddFiles ''Spell'' ''Spell.yml''
       [''filters'' \<mapsto> VList (map VStr [''[a-z]+'', ''(unclosed'', ''[0-9]+''])] sampleFilesManager =
     spellingBuilder sampleLib ''(?i)'' (\<lambda>g d. Inr d) sampleAddFiles ''Spell'' ''Spell.yml''
       [''filters'' \<mapsto> VList (map VStr [''[a-z]+'', ''[0-9]+''])] sampleFilesManager"
    unfolding v by blast
  with r show ?thesis by simp
qed

section \<open>Exit codes and missing arguments\<close>

lemma collectInput_find:
  "find (looksLikeStdin S) args = Some a \<Longrightarrow>
   collectInput S args input =
     Inl (E100 ''doLint'' (''argument '' @ quoted a @ '' does not exist''))"
  by (induction args arbitrary: input) (auto split: if_splits)

lemma collectInput_all:
  "find (looksLikeStdin S) args = None \<Longrightarrow> collectInput S args input = Inr (input @ args)"
  by (induction args arbitrary: input) (auto split: if_splits)

lemma doLint_missing:
  assumes "1 < length args" and "find (looksLikeStdin S) args = Some a"
  shows "doLint S args l glob =
    (([], Some (E100 ''doLint'' (''argument '' @ quoted a @ '' does not exist''))), [])"
  using assms by (auto simp: doLint_def collectInput_find)

lemma lintAndReport_exitCode:
  assumes "NewLinter P cfg = (l, eL)"
    and "doLint (system P) (Args P) l (Glob (flags P)) = ((linted, eD), cs)"
    and "PrintAlerts P linted cfg = (hasErrors, eP)"
  shows "exitCode (lintAndReport P cfg shown) =
    (if eL \<noteq> None \<or> eD \<noteq> None \<or> eP \<noteq> None then 2
     else if hasErrors \<and> \<not> NoExit (flags P) then 1 else 0)"
  using assms by (auto simp: lintAndReport_def handleError_def split: option.splits)

text \<open>
  The exit code of \<^verbatim>\<open>main\<close> from what the steps return to it: a built-in command ends
  with 1, or with 2 when it fails; an error that \<^verbatim>\<open>validateFlags\<close>, \<^verbatim>\<open>core.From\<close>,
  \<^verbatim>\<open>lint.NewLinter\<close>, \<^verbatim>\<open>doLint\<close> or \<^verbatim>\<open>PrintAlerts\<close> returns ends with 2; otherwise the
  code is 1 when \<^verbatim>\<open>PrintAlerts\<close> reports alerts and \<^verbatim>\<open>--no-exit\<close> is not set, and 0 if
  not. When there is no argument and the standard input is a terminal, the linting steps
  run only if \<^verbatim>\<open>printIntro\<close> returns.
\<close>

lemma exit_codes:
  assumes "NewConfig P (flags P) = (cfgN, errN)"
  shows
   "(length (Args P) = 1 \<and> StringInSlice (Args P ! 0) (commands P) \<longrightarrow>
       exitCode (main P) = (if doCommand P (Args P ! 0) = None then 1 else 2)) \<and>
    (\<not> (length (Args P) = 1 \<and> StringInSlice (Args P ! 0) (commands P)) \<longrightarrow>
     (if length (Args P) = 0 \<and> \<not> stat (system P)
      then printIntro P = None \<and> cfg = cfgN
      else validateFlags (system P) cfgN = None \<and> From P ''ini'' cfgN = (cfg, None)) \<longrightarrow>
     NewLinter P cfg = (l, eL) \<longrightarrow>
     doLint (system P) (Args P) l (Glob (flags P)) = ((linted, eD), cs) \<longrightarrow>
     PrintAlerts P linted cfg = (hasErrors, eP) \<longrightarrow>
       exitCode (main P) =
         (if eL \<noteq> None \<or> eD \<noteq> None \<or> eP \<noteq> None then 2
          else if hasErrors \<and> \<not> NoExit (flags P) then 1 else 0)) \<and>
    (\<not> (length (Args P) = 1 \<and> StringInSlice (Args P ! 0) (commands P)) \<longrightarrow>
     \<not> (length (Args P) = 0 \<and> \<not> stat (system P)) \<longrightarrow>
     validateFlags (system P) cfgN \<noteq> None \<or> snd (From P ''ini'' cfgN) \<noteq> None \<longrightarrow>
       exitCode (main P) = 2)"
proof (intro conjI impI)
  assume "length (Args P) = 1 \<and> StringInSlice (Args P ! 0) (commands P)"
  then show "exitCode (main P) = (if doCommand P (Args P ! 0) = None then 1 else 2)"
    using assms by (auto simp: main_def Let_def split: option.splits)
next
  assume nc: "\<not> (length (Args P) = 1 \<and> StringInSlice (Args P ! 0) (commands P))"
    and pre: "if length (Args P) = 0 \<and> \<not> stat (system P)
      then printIntro P = None \<and> cfg = cfgN
      else validateFlags (system P) cfgN = None \<and> From P ''ini'' cfgN = (cfg, None)"
    and rest: "NewLinter P cfg = (l, eL)"
      "doLint (system P) (Args P) l (Glob (flags P)) = ((linted, eD), cs)"
      "PrintAlerts P linted cfg = (hasErrors, eP)"
  let ?shown = "case errN of None \<Rightarrow> [] | Some e \<Rightarrow> [e]"
  have "main P = lintAndReport P cfg ?shown"
    using assms nc pre by (auto simp: main_def Let_def split: if_splits)
  then show "exitCode (main P) =
         (if eL \<noteq> None \<or> eD \<noteq> None \<or> eP \<noteq> None then 2
          else if hasErrors \<and> \<not> NoExit (flags P) then 1 else 0)"
    using lintAndReport_exitCode [OF rest] by simp
next
  assume "\<not> (length (Args P) = 1 \<and> StringInSlice (Args P ! 0) (commands P))"
    "\<not> (length (Args P) = 0 \<and> \<not> stat (system P))"
    "validateFlags (system P) cfgN \<noteq> None \<or> snd (From P ''ini'' cfgN) \<noteq> None"
  then show "exitCode (main P) = 2"
    using assms
    by (cases "From P ''ini'' cfgN")
       (auto simp: main_def Let_def handleError_def split: option.splits)
qed

lemma exit_codes_sample_runs:
  "exitCode (main (sampleProgram [''README.md''] False False)) = 0 \<and>
   exitCode (main (sampleProgram [''README.md''] True False)) = 1 \<and>
   exitCode (main (sampleProgram [''README.md''] True True)) = 0 \<and>
   exitCode (main (sampleProgram [''ls-config''] False False)) = 1 \<and>
   exitCode (main (sampleProgram [''new-rule''] False False)) = 2 \<and>
   exitCode (main ((sampleProgram [''README.md''] False False)
     \<lparr>flags := (sampleFlags False)\<lparr>Path := ''missing.ini''\<rparr>\<rparr>)) = 2"
proof -
  let ?cfg = "\<lambda>noExit. \<lparr>AcceptedTokens = [], Flags = sampleFlags noExit\<rparr>"
  have run: "exitCode (main (sampleProgram [''README.md''] hasErrors noExit)) =
      (if hasErrors \<and> \<not> noExit then 1 else 0)" for hasErrors noExit
    using exit_codes
      [where P = "sampleProgram [''README.md''] hasErrors noExit" and cfgN = "?cfg noExit"
         and errN = None and cfg = "?cfg noExit" and l = sampleLinter and eL = None
         and linted = "[''README.md'']" and eD = None and cs = "[CallLint [''README.md''] ''*'']"
         and hasErrors = hasErrors and eP = None]
    by (simp add: sampleProgram_def sampleSystem_def sampleFlags_def sampleLinter_def
        StringInSlice_def stat_def validateFlags_def doLint_def looksLikeStdin_def)
  have cmd: "exitCode (main (sampleProgram [c] False False)) =
      (if c = ''ls-config'' then 1 else 2)" if "c = ''ls-config'' \<or> c = ''new-rule''" for c
    using that exit_codes
      [where P = "sampleProgram [c] False False" and cfgN = "?cfg False" and errN = None]
    by (auto simp: sampleProgram_def StringInSlice_def)
  have bad: "exitCode (main ((sampleProgram [''README.md''] False False)
     \<lparr>flags := (sampleFlags False)\<lparr>Path := ''missing.ini''\<rparr>\<rparr>)) = 2"
    using exit_codes
      [where P = "(sampleProgram [''README.md''] False False)
          \<lparr>flags := (sampleFlags False)\<lparr>Path := ''missing.ini''\<rparr>\<rparr>"
         and cfgN = "\<lparr>AcceptedTokens = [], Flags = (sampleFlags False)\<lparr>Path := ''missing.ini''\<rparr>\<rparr>"
         and errN = None]
    by (simp add: sampleProgram_def sampleSystem_def sampleFlags_def
        StringInSlice_def stat_def validateFlags_def)
  show ?thesis
    using run [of False False] run [of True False] run [of True True]
      cmd [of "''ls-config''"] cmd [of "''new-rule''"] bad
    by simp
qed

text \<open>
  Two errors do not reach \<^verbatim>\<open>handleError\<close>. In the standard-input case of \<^verbatim>\<open>doLint\<close> the
  error of \<^verbatim>\<open>LintString\<close> is assigned to the \<^verbatim>\<open>err\<close> of the inner block and nil is
  returned, where the one-argument case returns the error; and an error of
  \<^verbatim>\<open>core.NewConfig\<close> is written to the standard error stream without ending the process.
\<close>

lemma doLint_stdin_drops_error:
  "StdinReadAll S = Inr data \<Longrightarrow>
   doLint S [] l glob = ((fst (LintString l data), None), [CallLintString data])"
  by (simp add: doLint_def)

lemma doLint_one_argument_keeps_error:
  "looksLikeStdin S a \<Longrightarrow> doLint S [a] l glob = (LintString l a, [CallLintString a])"
  by (simp add: doLint_def)

lemma newConfig_error_only_printed:
  "main ((sampleProgram [''README.md''] False False)
     \<lparr>NewConfig := (\<lambda>f. (\<lparr>AcceptedTokens = [], Flags = f\<rparr>, Some (E100 ''NewConfig'' ''failed'')))\<rparr>) =
   \<lparr>exitCode = 0, stderr = [E100 ''NewConfig'' ''failed''],
    calls = [CallLint [''README.md''] ''*'']\<rparr>"
  by (simp add: main_def lintAndReport_def doLint_def handleError_def
      sampleProgram_def sampleSystem_def sampleLinter_def
      sampleFlags_def stat_def StringInSlice_def validateFlags_def looksLikeStdin_def)

text \<open>
  Claim C5: the process exits with code 0 when linting completes with no alerts, with
  code 1 when alerts are present and \<^verbatim>\<open>--no-exit\<close> is not set or when a built-in command
  completes, with code 2 on a runtime error or a failing built-in command, and with code
  0 when \<^verbatim>\<open>--no-exit\<close> is set even if alerts exist. With no argument and the text piped to
  the standard input, a linter that fails with a runtime error leaves the process exiting
  with code 0 and nothing on the standard error stream; with the same text given as the
  one argument, the same failure is reported and the process exits with code 2.
\<close>

theorem stdin_lint_error_exits_zero:
  "main (sampleFailingProgram []) =
     \<lparr>exitCode = 0, stderr = [], calls = [CallLintString ''some text'']\<rparr> \<and>
   main (sampleFailingProgram [''some text'']) =
     \<lparr>exitCode = 2, stderr = [E100 ''lintString'' ''dictionary not found''],
      calls = [CallLintString ''some text'']\<rparr>"
  by (simp add: main_def lintAndReport_def doLint_def handleError_def sampleFailingProgram_def
      sampleProgram_def samplePipedSystem_def sampleSystem_def sampleFailingLinter_def
      sampleFlags_def stat_def StringInSlice_def validateFlags_def looksLikeStdin_def)

text \<open>
  Claim C6: when more than one argument is given and some argument is non-empty but
  names neither a file nor a directory, \<^verbatim>\<open>doLint\<close> returns an E100 error that names the
  first such argument, nothing is linted, and the process exits with code 2; the error
  is written to the standard error stream once the configuration and the linter have
  been set up without an error.
\<close>

theorem missing_argument_is_runtime_error:
  assumes "1 < length (Args P)"
    and "find (looksLikeStdin (system P)) (Args P) = Some a"
  shows "doLint (system P) (Args P) l glob =
           (([], Some (E100 ''doLint'' (''argument '' @ quoted a @ '' does not exist''))), []) \<and>
         a \<in> set (Args P) \<and> looksLikeStdin (system P) a \<and>
         exitCode (main P) = 2 \<and> calls (main P) = [] \<and>
         (validateFlags (system P) (fst (NewConfig P (flags P))) = None \<longrightarrow>
          snd (From P ''ini'' (fst (NewConfig P (flags P)))) = None \<longrightarrow>
          snd (NewLinter P (fst (From P ''ini'' (fst (NewConfig P (flags P)))))) = None \<longrightarrow>
            stderr (main P) =
              (case snd (NewConfig P (flags P)) of None \<Rightarrow> [] | Some e \<Rightarrow> [e]) @
              [E100 ''doLint'' (''argument '' @ quoted a @ '' does not exist'')])"
proof -
  let ?err = "E100 ''doLint'' (''argument '' @ quoted a @ '' does not exist'')"
  note d = doLint_missing [OF assms]
  have lr: "exitCode (lintAndReport P c sh) = 2 \<and> calls (lintAndReport P c sh) = [] \<and>
            (snd (NewLinter P c) = None \<longrightarrow> stderr (lintAndReport P c sh) = sh @ [?err])"
    for c sh
    by (cases "NewLinter P c") (auto simp: lintAndReport_def handleError_def d split: option.splits)
  have n0: "\<not> (length (Args P) = 0 \<and> \<not> stat (system P))"
       "\<not> (length (Args P) = 1 \<and> StringInSlice (Args P ! 0) (commands P))"
    using assms(1) by auto
  have mem: "a \<in> set (Args P) \<and> looksLikeStdin (system P) a"
    using assms(2) by (auto simp: find_Some_iff)
  have m: "exitCode (main P) = 2 \<and> calls (main P) = [] \<and>
         (validateFlags (system P) (fst (NewConfig P (flags P))) = None \<longrightarrow>
          snd (From P ''ini'' (fst (NewConfig P (flags P)))) = None \<longrightarrow>
          snd (NewLinter P (fst (From P ''ini'' (fst (NewConfig P (flags P)))))) = None \<longrightarrow>
            stderr (main P) =
              (case snd (NewConfig P (flags P)) of None \<Rightarrow> [] | Some e \<Rightarrow> [e]) @ [?err])"
    unfolding main_def using n0 lr
    by (cases "NewConfig P (flags P)"; cases "From P ''ini'' (fst (NewConfig P (flags P)))")
       (auto simp: Let_def handleError_def split: option.splits)
  from d mem m show ?thesis by blast
qed

theorem missing_argument_is_runtime_error_witness:
  "doLint sampleSystem [''README.md'', ''missing.md'', ''docs''] sampleLinter ''*'' =
     (([], Some (E100 ''doLint'' (''argument '' @ quoted ''missing.md'' @ '' does not exist''))), []) \<and>
   main (sampleProgram [''README.md'', ''missing.md'', ''docs''] False False) =
     \<lparr>exitCode = 2,
      stderr = [E100 ''doLint'' (''argument '' @ quoted ''missing.md'' @ '' does not exist'')],
      calls = []\<rparr>"
proof -
  let ?P = "sampleProgram [''README.md'', ''missing.md'', ''docs''] False False"
  have a: "1 < length (Args ?P)" by (simp add: sampleProgram_def)
  have b: "find (looksLikeStdin (system ?P)) (Args ?P) = Some ''missing.md''"
    by (simp add: sampleProgram_def sampleSystem_def looksLikeStdin_def)
  from missing_argument_is_runtime_error [OF a b, of sampleLinter "''*''"]
  show ?thesis
    by (simp add: sampleProgram_def validateFlags_def sampleFlags_def)
qed

end
